theory Spec2Isabelle
  imports Complex_Main "HOL-Library.Sublist"
begin

section \<open>The credit ledger of colpageapp\<close>

text \<open>
  The repository holds two generations of the ledger code:
  \<^item> \<^verbatim>\<open>src/src/lib/credit-utils.ts\<close> with the route \<^verbatim>\<open>src/src/app/api/credits/route.ts\<close>;
  \<^item> the colpageapp-master generation, \<^verbatim>\<open>src/unnamed/part_007\<close> (a later credit-utils.ts,
    the one that knows \<^verbatim>\<open>subscription_tier\<close>) with the route
    \<^verbatim>\<open>src/Desktop/colpageapp-master/src/app/api/groovesell-webhook/route.ts\<close>.
  Both are embedded. A function of the first keeps its source name; the function of the same
  name in the second carries the suffix \<open>_master\<close>.

  An \<^verbatim>\<open>async\<close> function either resolves or rejects: it is modelled as a function into
  \<open>exn + 'a\<close>, with \<open>Inl\<close> the rejection, paired with the database it leaves behind when it
  writes. The Supabase service itself is not code of the repository; its tables are lists of
  rows, and its failures are injected through the environment.
\<close>

subsection \<open>Dates\<close>

text \<open>
  A \<^verbatim>\<open>Date\<close> is kept as the fields its methods work on. The time zone of the server is taken
  to be UTC, so that \<^verbatim>\<open>toISOString\<close> shows these same fields. \<open>getMonth\<close> counts from 0.
\<close>

record js_date =
  getFullYear :: int
  getMonth :: nat
  getDate :: nat
  timeOfDay :: nat

definition leap :: "int \<Rightarrow> bool" where
  "leap y = (y mod 4 = 0 \<and> (y mod 100 \<noteq> 0 \<or> y mod 400 = 0))"

definition daysInMonth :: "int \<Rightarrow> nat \<Rightarrow> nat" where
  "daysInMonth y m =
     (if m = 1 then (if leap y then 29 else 28)
      else if m = 3 \<or> m = 5 \<or> m = 8 \<or> m = 10 then 30 else 31)"

text \<open>
  ECMAScript's MakeDay: months beyond December carry into the year, and a day of month beyond
  the end of the month carries into the next month. A day of month is at most 31 and a month
  has at least 28 days, so one carry is enough for the dates that \<open>setMonth\<close> and
  \<open>setFullYear\<close> build from a valid date.
\<close>

definition makeDate :: "int \<Rightarrow> nat \<Rightarrow> nat \<Rightarrow> nat \<Rightarrow> js_date" where
  "makeDate y m d t =
     (let ym = y + int (m div 12); mn = m mod 12
      in if d \<le> daysInMonth ym mn
         then \<lparr>getFullYear = ym, getMonth = mn, getDate = d, timeOfDay = t\<rparr>
         else \<lparr>getFullYear = ym + int ((mn + 1) div 12), getMonth = (mn + 1) mod 12,
               getDate = d - daysInMonth ym mn, timeOfDay = t\<rparr>)"

definition setMonth :: "js_date \<Rightarrow> nat \<Rightarrow> js_date" where
  "setMonth dt m = makeDate (getFullYear dt) m (getDate dt) (timeOfDay dt)"

definition setFullYear :: "js_date \<Rightarrow> int \<Rightarrow> js_date" where
  "setFullYear dt y = makeDate y (getMonth dt) (getDate dt) (timeOfDay dt)"

subsection \<open>Rows and tables\<close>

text \<open>
  \<^verbatim>\<open>interface User\<close> and \<^verbatim>\<open>interface CreditTransaction\<close> of supabase.ts, the tables of
  \<^verbatim>\<open>src/supabase-setup.sql\<close>. The column \<^verbatim>\<open>id\<close> is the field \<open>uid\<close> here. The column
  \<^verbatim>\<open>credits\<close> is an SQL INTEGER, so balances and amounts are integers. \<^verbatim>\<open>subscription_tier\<close>
  exists only in the colpageapp-master generation; the older code never reads or writes it.
  The generated key of a transaction row is left out: the log is a list, and a row is known
  by its position.
\<close>

datatype subscription_period = Monthly | Yearly

datatype subscription_tier = Basic | Standard | Premium

datatype transaction_type = Purchase | Usage | Refund

record user =
  uid :: string
  email :: string
  credits :: int
  subscription_type :: "subscription_period option"
  subscription_tier :: "subscription_tier option"
  subscription_expires_at :: "js_date option"
  created_at :: js_date
  updated_at :: js_date

record credit_transaction =
  user_id :: string
  amount :: int
  transaction_type :: transaction_type
  description :: string
  tx_created_at :: js_date

record db =
  users :: "user list"
  credit_transactions :: "credit_transaction list"

text \<open>The constraints of the schema: \<^verbatim>\<open>id\<close> is the primary key, \<^verbatim>\<open>email\<close> is UNIQUE.\<close>

definition schema_ok :: "db \<Rightarrow> bool" where
  "schema_ok d = (distinct (map uid (users d)) \<and> distinct (map email (users d)))"

subsection \<open>Errors\<close>

text \<open>
  What a JavaScript \<^verbatim>\<open>throw\<close> carries: a \<^verbatim>\<open>CreditError(message, code)\<close> or some other
  \<^verbatim>\<open>Error(message)\<close>. What a PostgREST reply carries in \<^verbatim>\<open>error\<close>: the code PGRST116 that
  \<^verbatim>\<open>.single()\<close> gives when the rows are not exactly one, or any other error with its message.
\<close>

datatype exn = CreditError string string | Error string

datatype pg_error = PGRST116 | StoreError string

fun pg_message :: "pg_error \<Rightarrow> string" where
  "pg_message PGRST116 = ''JSON object requested, multiple (or no) rows returned''"
| "pg_message (StoreError m) = m"

datatype failure = Thrown string | Returned pg_error

subsection \<open>Numbers and columns\<close>

text \<open>
  The columns \<^verbatim>\<open>credits\<close> and \<^verbatim>\<open>amount\<close> are SQL INTEGER, 32 bits wide: the store refuses a
  value outside that range, and it refuses null, both being NOT NULL. The amounts the code
  computes with are integers. Where the groovesell-webhook route looks a product up by a name
  that every object inherits, the amount it passes on is \<^verbatim>\<open>undefined\<close>; \<^verbatim>\<open>credits + undefined\<close>
  is NaN, which goes to the store as null, and an undefined \<^verbatim>\<open>amount\<close> is left out of the
  row that is logged. \<open>NaN\<close> stands for such an amount.
\<close>

datatype number = Number int | NaN

fun add_number :: "int \<Rightarrow> number \<Rightarrow> number" where
  "add_number a (Number b) = Number (a + b)"
| "add_number a NaN = NaN"

definition int32 :: "int \<Rightarrow> bool" where
  "int32 n = (- 2147483648 \<le> n \<and> n \<le> 2147483647)"

fun show_nat :: "nat \<Rightarrow> string" where
  "show_nat n =
     (if n < 10 then [''0123456789'' ! n]
      else show_nat (n div 10) @ [''0123456789'' ! (n mod 10)])"

declare show_nat.simps [simp del]

definition show_int :: "int \<Rightarrow> string" where
  "show_int n = (if n < 0 then ''-'' @ show_nat (nat (- n)) else show_nat (nat n))"

definition out_of_range :: "int \<Rightarrow> pg_error" where
  "out_of_range n = StoreError (''value '' @ show_int n @ '' is out of range for type integer'')"

definition not_null :: "string \<Rightarrow> pg_error" where
  "not_null column =
     StoreError (''null value in column '' @ column @ '' violates not-null constraint'')"

text \<open>
  The object an update sends. A member that is absent, or \<^verbatim>\<open>undefined\<close> (which
  \<^verbatim>\<open>JSON.stringify\<close> drops), is \<open>None\<close>. Every update of the code sends \<^verbatim>\<open>updated_at\<close>.
\<close>

record patch =
  set_credits :: "number option"
  set_subscription_type :: "subscription_period option"
  set_subscription_tier :: "subscription_tier option"
  set_subscription_expires_at :: "js_date option"
  set_updated_at :: js_date

definition apply_patch :: "patch \<Rightarrow> user \<Rightarrow> user" where
  "apply_patch p r =
     r\<lparr>credits := (case set_credits p of Some (Number n) \<Rightarrow> n | _ \<Rightarrow> credits r),
       subscription_type :=
         (case set_subscription_type p of Some t \<Rightarrow> Some t | None \<Rightarrow> subscription_type r),
       subscription_tier :=
         (case set_subscription_tier p of Some t \<Rightarrow> Some t | None \<Rightarrow> subscription_tier r),
       subscription_expires_at :=
         (case set_subscription_expires_at p of
            Some t \<Rightarrow> Some t
          | None \<Rightarrow> subscription_expires_at r),
       updated_at := set_updated_at p\<rparr>"

text \<open>
  What the store has against a patch for the given rows: a \<^verbatim>\<open>credits\<close> outside the INTEGER
  range, or a null \<^verbatim>\<open>credits\<close> for a row that exists.
\<close>

definition refuses :: "patch \<Rightarrow> user list \<Rightarrow> pg_error option" where
  "refuses p rows =
     (case set_credits p of
        None \<Rightarrow> None
      | Some (Number n) \<Rightarrow> if int32 n then None else Some (out_of_range n)
      | Some NaN \<Rightarrow> if rows = [] then None else Some (not_null ''credits''))"

subsection \<open>The environment of a call\<close>

text \<open>
  \<open>supabase\<close> and \<open>supabaseAdmin\<close> say whether the two module-level clients are non-null.
  \<open>faults\<close> lists the kinds of request the persistence service does not serve, each with
  what the client library does then: reject the promise (\<open>Throws\<close>) or resolve with an
  \<^verbatim>\<open>error\<close> (\<open>Errors\<close>). A faulty request leaves the tables as they are. \<open>createUser_reply\<close>
  is the answer of the identity provider to \<^verbatim>\<open>auth.admin.createUser\<close>, which lies outside the
  repository. \<open>now\<close> is the clock, read once per call. \<open>parseFloat\<close> is the built-in of the
  JavaScript runtime on strings, with \<open>None\<close> for NaN; the code only asks whether its result
  is above 0, so any positive number stands for Infinity.
\<close>

datatype request = SelectUsers | InsertUsers | UpdateUsers | InsertTransactions

datatype fault = Throws string | Errors string

datatype auth_reply = AuthUser "string option" | AuthError string | AuthThrows string

record env =
  supabase :: bool
  supabaseAdmin :: bool
  faults :: "(request \<times> fault) list"
  createUser_reply :: auth_reply
  now :: js_date
  parseFloat :: "string \<Rightarrow> rat option"

text \<open>A healthy store: both clients exist, and no kind of request is faulty.\<close>

definition healthy :: "env \<Rightarrow> bool" where
  "healthy e = (supabase e \<and> supabaseAdmin e \<and> faults e = [])"

text \<open>A request through a null client is a TypeError; otherwise the fault table decides.\<close>

definition send :: "env \<Rightarrow> bool \<Rightarrow> request \<Rightarrow> failure option" where
  "send e client r =
     (if \<not> client then Some (Thrown ''Cannot read properties of null'')
      else case map_of (faults e) r of
             None \<Rightarrow> None
           | Some (Throws m) \<Rightarrow> Some (Thrown m)
           | Some (Errors m) \<Rightarrow> Some (Returned (StoreError m)))"

text \<open>The reads of the \<^verbatim>\<open>users\<close> table are served: the store is up as far as a lookup goes.\<close>

definition readable :: "env \<Rightarrow> bool" where
  "readable e = (send e (supabase e) SelectUsers = None)"

subsection \<open>The requests the code makes\<close>

text \<open>\<^verbatim>\<open>.from('users').select('*').eq(column, value)\<close>: the rows the filter keeps.\<close>

definition select_users :: "env \<Rightarrow> bool \<Rightarrow> db \<Rightarrow> (user \<Rightarrow> bool) \<Rightarrow> failure + user list" where
  "select_users e client d p =
     (case send e client SelectUsers of
        Some f \<Rightarrow> Inl f
      | None \<Rightarrow> Inr (filter p (users d)))"

text \<open>\<^verbatim>\<open>.single()\<close> on a read: exactly one row, or PGRST116.\<close>

definition single :: "failure + 'a list \<Rightarrow> failure + 'a" where
  "single r =
     (case r of
        Inl f \<Rightarrow> Inl f
      | Inr rows \<Rightarrow> (case rows of [x] \<Rightarrow> Inr x | _ \<Rightarrow> Inl (Returned PGRST116)))"

text \<open>
  \<^verbatim>\<open>.from('users').insert(row).select().single()\<close>. The INTEGER column rejects a balance out
  of its range, the primary key and the UNIQUE email reject a duplicate.
\<close>

definition insert_user :: "env \<Rightarrow> bool \<Rightarrow> db \<Rightarrow> user \<Rightarrow> (failure + user) \<times> db" where
  "insert_user e client d u =
     (case send e client InsertUsers of
        Some f \<Rightarrow> (Inl f, d)
      | None \<Rightarrow>
          if \<not> int32 (credits u) then (Inl (Returned (out_of_range (credits u))), d)
          else if uid u \<in> set (map uid (users d))
          then (Inl (Returned (StoreError ''duplicate key value violates unique constraint users_pkey'')), d)
          else if email u \<in> set (map email (users d))
          then (Inl (Returned (StoreError ''duplicate key value violates unique constraint users_email_key'')), d)
          else (Inr u, d\<lparr>users := users d @ [u]\<rparr>))"

text \<open>
  \<^verbatim>\<open>.from('users').update(data).eq(column, value).select()\<close>: the rows as updated, unless the
  store refuses the data.
\<close>

definition update_users ::
  "env \<Rightarrow> bool \<Rightarrow> db \<Rightarrow> (user \<Rightarrow> bool) \<Rightarrow> patch \<Rightarrow> (failure + user list) \<times> db" where
  "update_users e client d p data =
     (case send e client UpdateUsers of
        Some f \<Rightarrow> (Inl f, d)
      | None \<Rightarrow>
          (case refuses data (filter p (users d)) of
             Some err \<Rightarrow> (Inl (Returned err), d)
           | None \<Rightarrow>
               (Inr (map (apply_patch data) (filter p (users d))),
                d\<lparr>users := map (\<lambda>u. if p u then apply_patch data u else u) (users d)\<rparr>)))"

text \<open>
  The same with \<^verbatim>\<open>.single()\<close>: PostgREST rolls the write back when the rows are not exactly
  one.
\<close>

definition update_users_single ::
  "env \<Rightarrow> bool \<Rightarrow> db \<Rightarrow> (user \<Rightarrow> bool) \<Rightarrow> patch \<Rightarrow> (failure + user) \<times> db" where
  "update_users_single e client d p data =
     (case send e client UpdateUsers of
        Some f \<Rightarrow> (Inl f, d)
      | None \<Rightarrow>
          (case refuses data (filter p (users d)) of
             Some err \<Rightarrow> (Inl (Returned err), d)
           | None \<Rightarrow>
               (case filter p (users d) of
                  [u] \<Rightarrow> (Inr (apply_patch data u),
                           d\<lparr>users := map (\<lambda>u. if p u then apply_patch data u else u) (users d)\<rparr>)
                | _ \<Rightarrow> (Inl (Returned PGRST116), d))))"

text \<open>
  \<^verbatim>\<open>.from('credit_transactions').insert(row)\<close>. \<^verbatim>\<open>amount\<close> is an INTEGER,
  \<^verbatim>\<open>user_id\<close> REFERENCES \<^verbatim>\<open>users(id)\<close>.
\<close>

definition insert_transaction ::
  "env \<Rightarrow> bool \<Rightarrow> db \<Rightarrow> credit_transaction \<Rightarrow> failure option \<times> db" where
  "insert_transaction e client d t =
     (case send e client InsertTransactions of
        Some f \<Rightarrow> (Some f, d)
      | None \<Rightarrow>
          if \<not> int32 (amount t) then (Some (Returned (out_of_range (amount t))), d)
          else if user_id t \<in> set (map uid (users d))
          then (None, d\<lparr>credit_transactions := credit_transactions d @ [t]\<rparr>)
          else (Some (Returned (StoreError ''insert or update on table credit_transactions violates foreign key constraint'')), d))"

subsection \<open>src/src/lib/credit-utils.ts\<close>

definition INITIAL_CREDITS :: int where "INITIAL_CREDITS = 0"
definition TRIAL_CREDITS :: int where "TRIAL_CREDITS = 3"
definition MONTHLY_CREDITS :: int where "MONTHLY_CREDITS = 5"
definition YEARLY_CREDITS :: int where "YEARLY_CREDITS = 60"

text \<open>
  The \<^verbatim>\<open>catch\<close> block every function of the module ends with: a CreditError goes on as it
  is, anything else becomes a CreditError with the code UNKNOWN_ERROR.
\<close>

definition catch_unknown :: "string \<Rightarrow> exn + 'a \<Rightarrow> exn + 'a" where
  "catch_unknown msg r =
     (case r of
        Inl (Error _) \<Rightarrow> Inl (CreditError msg ''UNKNOWN_ERROR'')
      | _ \<Rightarrow> r)"

definition getUserByEmail :: "env \<Rightarrow> db \<Rightarrow> string \<Rightarrow> exn + user option" where
  "getUserByEmail e d addr =
     catch_unknown ''Unknown error getting user''
       (case single (select_users e (supabase e) d (\<lambda>u. email u = addr)) of
          Inl (Thrown m) \<Rightarrow> Inl (Error m)
        | Inl (Returned err) \<Rightarrow>
            if err = PGRST116 then Inr None
            else Inl (CreditError (''Failed to get user: '' @ pg_message err) ''GET_USER_ERROR'')
        | Inr u \<Rightarrow> Inr (Some u))"

definition createUser :: "env \<Rightarrow> db \<Rightarrow> string \<Rightarrow> string \<Rightarrow> (exn + user) \<times> db" where
  "createUser e d i addr =
     apfst (catch_unknown ''Unknown error creating user'')
     (case insert_user e (supabase e) d
             \<lparr>uid = i, email = addr, credits = INITIAL_CREDITS, subscription_type = None,
              subscription_tier = None, subscription_expires_at = None,
              created_at = now e, updated_at = now e\<rparr> of
        (Inl (Thrown m), d') \<Rightarrow> (Inl (Error m), d')
      | (Inl (Returned err), d') \<Rightarrow>
          (Inl (CreditError (''Failed to create user: '' @ pg_message err) ''CREATE_USER_ERROR''), d')
      | (Inr u, d') \<Rightarrow> (Inr u, d'))"

definition getOrCreateUser :: "env \<Rightarrow> db \<Rightarrow> string \<Rightarrow> string \<Rightarrow> (exn + user) \<times> db" where
  "getOrCreateUser e d i addr =
     apfst (catch_unknown ''Unknown error getting or creating user'')
     (case getUserByEmail e d addr of
        Inl x \<Rightarrow> (Inl x, d)
      | Inr (Some u) \<Rightarrow> (Inr u, d)
      | Inr None \<Rightarrow> createUser e d i addr)"

text \<open>
  JavaScript truthiness of an optional string: \<^verbatim>\<open>undefined\<close>, \<^verbatim>\<open>null\<close> and the empty string
  are falsy. \<open>or_null\<close> is \<^verbatim>\<open>x || null\<close>.
\<close>

definition truthy :: "string option \<Rightarrow> bool" where
  "truthy s = (case s of None \<Rightarrow> False | Some x \<Rightarrow> x \<noteq> [])"

definition or_null :: "string option \<Rightarrow> string option" where
  "or_null s = (if truthy s then s else None)"

definition includes_s :: "string \<Rightarrow> string \<Rightarrow> bool" where
  "includes_s s sub = sublist sub s"

text \<open>The test \<open>signUpUser\<close> makes on the message of an error of the identity provider.\<close>

definition already_registered :: "string \<Rightarrow> bool" where
  "already_registered m =
     (includes_s m ''User already registered'' \<or> includes_s m ''already exists''
      \<or> includes_s m ''already registered'' \<or> includes_s m ''has already been registered'')"

definition signUpUser :: "env \<Rightarrow> db \<Rightarrow> string \<Rightarrow> string option \<Rightarrow> exn + string option" where
  "signUpUser e d addr password =
     (if \<not> truthy password then
        (case getUserByEmail e d addr of
           Inl x \<Rightarrow> Inl x
         | Inr existingUser \<Rightarrow> Inr (or_null (map_option uid existingUser)))
      else if \<not> supabaseAdmin e then Inl (CreditError ''Admin client not available'' ''NO_ADMIN_CLIENT'')
      else
        (case createUser_reply e of
           AuthThrows m \<Rightarrow> Inl (Error m)
         | AuthError m \<Rightarrow>
             if already_registered m then (case getUserByEmail e d addr of
                     Inl x \<Rightarrow> Inl x
                   | Inr existingUser \<Rightarrow> Inr (or_null (map_option uid existingUser)))
             else Inl (CreditError (''Failed to sign up user: '' @ m) ''SIGNUP_USER_ERROR'')
         | AuthUser i \<Rightarrow> Inr (or_null i)))"

definition hasEnoughCredits :: "env \<Rightarrow> db \<Rightarrow> string \<Rightarrow> int \<Rightarrow> exn + bool" where
  "hasEnoughCredits e d addr requiredCredits =
     (case getUserByEmail e d addr of
        Inl x \<Rightarrow> Inr True
      | Inr None \<Rightarrow> Inr False
      | Inr (Some u) \<Rightarrow> Inr (credits u \<ge> requiredCredits))"

definition getCreditBalance :: "env \<Rightarrow> db \<Rightarrow> string \<Rightarrow> exn + int" where
  "getCreditBalance e d addr =
     (case getUserByEmail e d addr of
        Inl x \<Rightarrow> Inr 0
      | Inr None \<Rightarrow> Inr 0
      | Inr (Some u) \<Rightarrow> Inr (credits u))"

text \<open>Neither an \<^verbatim>\<open>error\<close> in the reply nor an exception leaves \<open>logCreditTransaction\<close>.\<close>

definition logCreditTransaction ::
  "env \<Rightarrow> db \<Rightarrow> string \<Rightarrow> int \<Rightarrow> transaction_type \<Rightarrow> string \<Rightarrow> db" where
  "logCreditTransaction e d userId amt ty descr =
     snd (insert_transaction e (supabase e) d
            \<lparr>user_id = userId, amount = amt, transaction_type = ty, description = descr,
             tx_created_at = now e\<rparr>)"

definition useCredits :: "env \<Rightarrow> db \<Rightarrow> string \<Rightarrow> int \<Rightarrow> (exn + user) \<times> db" where
  "useCredits e d addr amt =
     apfst (catch_unknown ''Unknown error using credits'')
     (case getUserByEmail e d addr of
        Inl x \<Rightarrow> (Inl x, d)
      | Inr None \<Rightarrow> (Inl (CreditError ''User not found'' ''USER_NOT_FOUND''), d)
      | Inr (Some u) \<Rightarrow>
          if credits u < amt then (Inl (CreditError ''Insufficient credits'' ''INSUFFICIENT_CREDITS''), d)
          else
            (case update_users_single e (supabase e) d (\<lambda>r. email r = addr)
                    \<lparr>set_credits = Some (Number (credits u - amt)), set_subscription_type = None,
                     set_subscription_tier = None, set_subscription_expires_at = None,
                     set_updated_at = now e\<rparr> of
               (Inl (Thrown m), d') \<Rightarrow> (Inl (Error m), d')
             | (Inl (Returned err), d') \<Rightarrow>
                 (Inl (CreditError (''Failed to use credits: '' @ pg_message err) ''USE_CREDITS_ERROR''), d')
             | (Inr data, d') \<Rightarrow>
                 (Inr data, logCreditTransaction e d' (uid u) (- amt) Usage ''Image generation'')))"

text \<open>
  \<^verbatim>\<open>updateData\<close> of \<open>addCredits\<close>: the new balance and \<^verbatim>\<open>updated_at\<close>, and with a
  subscription type that type and its expiry.
\<close>

definition expirationDate :: "env \<Rightarrow> subscription_period \<Rightarrow> js_date" where
  "expirationDate e subscriptionType =
     (if subscriptionType = Monthly then setMonth (now e) (getMonth (now e) + 1)
      else setFullYear (now e) (getFullYear (now e) + 1))"

definition updateData :: "env \<Rightarrow> user \<Rightarrow> number \<Rightarrow> subscription_period option \<Rightarrow> patch" where
  "updateData e u amt subscriptionType =
     \<lparr>set_credits = Some (add_number (credits u) amt),
      set_subscription_type = subscriptionType,
      set_subscription_tier = None,
      set_subscription_expires_at = map_option (expirationDate e) subscriptionType,
      set_updated_at = now e\<rparr>"

definition purchase_description :: "subscription_period option \<Rightarrow> string" where
  "purchase_description subscriptionType =
     (case subscriptionType of
        None \<Rightarrow> ''manual''
      | Some Monthly \<Rightarrow> ''monthly''
      | Some Yearly \<Rightarrow> ''yearly'') @ '' credit purchase''"

definition addCredits ::
  "env \<Rightarrow> db \<Rightarrow> string \<Rightarrow> int \<Rightarrow> subscription_period option \<Rightarrow> string option \<Rightarrow> (exn + user) \<times> db" where
  "addCredits e d addr amt subscriptionType authUserId =
     apfst (catch_unknown ''Unknown error adding credits'')
     (case getUserByEmail e d addr of
        Inl x \<Rightarrow> (Inl x, d)
      | Inr found \<Rightarrow>
          (case (case found of
                   Some u \<Rightarrow> (Inr u, d)
                 | None \<Rightarrow>
                     (case or_null authUserId of
                        Some i \<Rightarrow> createUser e d i addr
                      | None \<Rightarrow>
                          (Inl (CreditError ''User not found and no auth ID provided'' ''USER_NOT_FOUND''), d))) of
             (Inl x, d1) \<Rightarrow> (Inl x, d1)
           | (Inr u, d1) \<Rightarrow>
               (case update_users_single e (supabase e) d1 (\<lambda>r. uid r = uid u)
                       (updateData e u (Number amt) subscriptionType) of
                  (Inl (Thrown m), d2) \<Rightarrow> (Inl (Error m), d2)
                | (Inl (Returned err), d2) \<Rightarrow>
                    (Inl (CreditError (''Failed to add credits: '' @ pg_message err) ''ADD_CREDITS_ERROR''), d2)
                | (Inr data, d2) \<Rightarrow>
                    (Inr data, logCreditTransaction e d2 (uid u) amt Purchase
                                 (purchase_description subscriptionType)))))"

subsection \<open>src/unnamed/part_007: credit-utils.ts of colpageapp-master\<close>

text \<open>
  The constants and \<open>CreditError\<close> are the same. The reads go through \<open>supabase\<close>, the writes
  through \<open>supabaseAdmin\<close>, each guarded against a null client.
\<close>

definition getUserByEmail_master :: "env \<Rightarrow> db \<Rightarrow> string \<Rightarrow> exn + user option" where
  "getUserByEmail_master e d addr =
     catch_unknown ''Unknown error getting user''
       (if \<not> supabase e then Inl (CreditError ''Supabase client not available'' ''NO_SUPABASE_CLIENT'')
        else
          (case select_users e (supabase e) d (\<lambda>u. email u = addr) of
             Inl (Thrown m) \<Rightarrow> Inl (Error m)
           | Inl (Returned err) \<Rightarrow>
               Inl (CreditError (''Failed to get users: '' @ pg_message err) ''GET_USERS_ERROR'')
           | Inr allUsers \<Rightarrow>
               (case allUsers of
                  [] \<Rightarrow> Inr None
                | u # _ \<Rightarrow> Inr (Some u))))"

definition createUser_master :: "env \<Rightarrow> db \<Rightarrow> string \<Rightarrow> string \<Rightarrow> (exn + user) \<times> db" where
  "createUser_master e d i addr =
     apfst (catch_unknown ''Unknown error creating user'')
     (if \<not> supabase e then (Inl (CreditError ''Supabase client not available'' ''NO_SUPABASE_CLIENT''), d)
      else
        (case insert_user e (supabase e) d
                \<lparr>uid = i, email = addr, credits = INITIAL_CREDITS, subscription_type = None,
                 subscription_tier = None, subscription_expires_at = None,
                 created_at = now e, updated_at = now e\<rparr> of
           (Inl (Thrown m), d') \<Rightarrow> (Inl (Error m), d')
         | (Inl (Returned err), d') \<Rightarrow>
             (Inl (CreditError (''Failed to create user: '' @ pg_message err) ''CREATE_USER_ERROR''), d')
         | (Inr u, d') \<Rightarrow> (Inr u, d')))"

definition getOrCreateUser_master :: "env \<Rightarrow> db \<Rightarrow> string \<Rightarrow> string \<Rightarrow> (exn + user) \<times> db" where
  "getOrCreateUser_master e d i addr =
     apfst (catch_unknown ''Unknown error getting or creating user'')
     (case getUserByEmail_master e d addr of
        Inl x \<Rightarrow> (Inl x, d)
      | Inr (Some u) \<Rightarrow> (Inr u, d)
      | Inr None \<Rightarrow> createUser_master e d i addr)"

definition signUpUser_master :: "env \<Rightarrow> db \<Rightarrow> string \<Rightarrow> string option \<Rightarrow> exn + string option" where
  "signUpUser_master e d addr password =
     (if \<not> truthy password then
        (case getUserByEmail_master e d addr of
           Inl x \<Rightarrow> Inl x
         | Inr existingUser \<Rightarrow> Inr (or_null (map_option uid existingUser)))
      else if \<not> supabaseAdmin e then Inl (CreditError ''Admin client not available'' ''NO_ADMIN_CLIENT'')
      else
        (case createUser_reply e of
           AuthThrows m \<Rightarrow> Inl (Error m)
         | AuthError m \<Rightarrow>
             if already_registered m then (case getUserByEmail_master e d addr of
                     Inl x \<Rightarrow> Inl x
                   | Inr existingUser \<Rightarrow> Inr (or_null (map_option uid existingUser)))
             else Inl (CreditError (''Failed to sign up user: '' @ m) ''SIGNUP_USER_ERROR'')
         | AuthUser i \<Rightarrow> Inr (or_null i)))"

definition hasEnoughCredits_master :: "env \<Rightarrow> db \<Rightarrow> string \<Rightarrow> int \<Rightarrow> exn + bool" where
  "hasEnoughCredits_master e d addr requiredCredits =
     (case getUserByEmail_master e d addr of
        Inl x \<Rightarrow> Inr True
      | Inr None \<Rightarrow> Inr False
      | Inr (Some u) \<Rightarrow> Inr (credits u \<ge> requiredCredits))"

definition getCreditBalance_master :: "env \<Rightarrow> db \<Rightarrow> string \<Rightarrow> exn + int" where
  "getCreditBalance_master e d addr =
     (case getUserByEmail_master e d addr of
        Inl x \<Rightarrow> Inr 0
      | Inr None \<Rightarrow> Inr 0
      | Inr (Some u) \<Rightarrow> Inr (credits u))"

text \<open>
  The amount of a row to log is a number: a row without an amount is refused by the store, and
  like every other failure of the insert that is swallowed.
\<close>

definition logCreditTransaction_master ::
  "env \<Rightarrow> db \<Rightarrow> string \<Rightarrow> number \<Rightarrow> transaction_type \<Rightarrow> string \<Rightarrow> db" where
  "logCreditTransaction_master e d userId amt ty descr =
     (if \<not> supabaseAdmin e then d
      else (case amt of
              NaN \<Rightarrow> d
            | Number n \<Rightarrow>
                snd (insert_transaction e (supabaseAdmin e) d
                       \<lparr>user_id = userId, amount = n, transaction_type = ty, description = descr,
                        tx_created_at = now e\<rparr>)))"

definition useCredits_master :: "env \<Rightarrow> db \<Rightarrow> string \<Rightarrow> int \<Rightarrow> (exn + user) \<times> db" where
  "useCredits_master e d addr amt =
     apfst (catch_unknown ''Unknown error using credits'')
     (if \<not> supabase e then (Inl (CreditError ''Supabase client not available'' ''NO_SUPABASE_CLIENT''), d)
      else
        (case getUserByEmail_master e d addr of
           Inl x \<Rightarrow> (Inl x, d)
         | Inr None \<Rightarrow> (Inl (CreditError ''User not found'' ''USER_NOT_FOUND''), d)
         | Inr (Some u) \<Rightarrow>
             if credits u < amt then (Inl (CreditError ''Insufficient credits'' ''INSUFFICIENT_CREDITS''), d)
             else if \<not> supabaseAdmin e
             then (Inl (CreditError ''Admin client not available for credit deduction''
                          ''NO_ADMIN_CLIENT_DEDUCTION''), d)
             else
               (case update_users_single e (supabaseAdmin e) d (\<lambda>r. uid r = uid u)
                       \<lparr>set_credits = Some (Number (credits u - amt)), set_subscription_type = None,
                        set_subscription_tier = None, set_subscription_expires_at = None,
                        set_updated_at = now e\<rparr> of
                  (Inl (Thrown m), d') \<Rightarrow> (Inl (Error m), d')
                | (Inl (Returned err), d') \<Rightarrow>
                    (Inl (CreditError (''Failed to use credits: '' @ pg_message err) ''USE_CREDITS_ERROR''), d')
                | (Inr data, d') \<Rightarrow>
                    (Inr data,
                     logCreditTransaction_master e d' (uid u) (Number (- amt)) Usage
                       ''Image generation''))))"

text \<open>
  \<open>addCredits\<close> of this generation reads the row again by its id before it writes
  (\<^verbatim>\<open>.single()\<close>, so a missing row is the error PGRST116), and takes the first of the
  rows the update returns. Its amount is a \<open>number\<close>, since the groovesell-webhook route can
  call it with an undefined amount.
\<close>

definition addCredits_master ::
  "env \<Rightarrow> db \<Rightarrow> string \<Rightarrow> number \<Rightarrow> subscription_period option \<Rightarrow> string option \<Rightarrow> (exn + user) \<times> db" where
  "addCredits_master e d addr amt subscriptionType authUserId =
     apfst (catch_unknown ''Unknown error adding credits'')
     (case getUserByEmail_master e d addr of
        Inl x \<Rightarrow> (Inl x, d)
      | Inr found \<Rightarrow>
          (case (case found of
                   Some u \<Rightarrow> (Inr u, d)
                 | None \<Rightarrow>
                     (case or_null authUserId of
                        Some i \<Rightarrow> createUser_master e d i addr
                      | None \<Rightarrow>
                          (Inl (CreditError ''User not found and no auth ID provided'' ''USER_NOT_FOUND''), d))) of
             (Inl x, d1) \<Rightarrow> (Inl x, d1)
           | (Inr u, d1) \<Rightarrow>
               if \<not> supabase e
               then (Inl (CreditError ''Supabase client not available'' ''NO_SUPABASE_CLIENT''), d1)
               else
                 (case single (select_users e (supabase e) d1 (\<lambda>r. uid r = uid u)) of
                    Inl (Thrown m) \<Rightarrow> (Inl (Error m), d1)
                  | Inl (Returned err) \<Rightarrow>
                      (Inl (CreditError (''User verification failed: '' @ pg_message err)
                              ''USER_VERIFICATION_ERROR''), d1)
                  | Inr existingUser \<Rightarrow>
                      if \<not> supabaseAdmin e
                      then (Inl (CreditError ''Admin client not available for update''
                                   ''NO_ADMIN_CLIENT_UPDATE''), d1)
                      else
                        (case update_users e (supabaseAdmin e) d1 (\<lambda>r. uid r = uid u)
                                (updateData e u amt subscriptionType) of
                           (Inl (Thrown m), d2) \<Rightarrow> (Inl (Error m), d2)
                         | (Inl (Returned err), d2) \<Rightarrow>
                             (Inl (CreditError (''Failed to add credits: '' @ pg_message err)
                                     ''ADD_CREDITS_ERROR''), d2)
                         | (Inr data, d2) \<Rightarrow>
                             (case data of
                                [] \<Rightarrow> (Inl (CreditError ''No user record was updated'' ''NO_ROWS_UPDATED''), d2)
                              | updatedUser # _ \<Rightarrow>
                                  (Inr updatedUser,
                                   logCreditTransaction_master e d2 (uid u) amt Purchase
                                     (purchase_description subscriptionType)))))))"

subsection \<open>Requests and responses of the routes\<close>

text \<open>
  The fields a route destructures from the JSON body. A text field is \<open>None\<close> when it is
  absent or null. \<^verbatim>\<open>amount\<close> and \<^verbatim>\<open>trial_transaction\<close> arrive as a number or as a string.
  A request is \<open>Inl m\<close> when \<^verbatim>\<open>request.json()\<close> throws an Error with the message \<open>m\<close>.
  No other type of JSON value is modelled for these fields.
\<close>

datatype json_value = Absent | Num rat | Str string

record payload =
  body_event :: "string option"
  body_buyer_email :: "string option"
  body_product_id :: "string option"
  body_subscription_type :: "string option"
  body_amount :: json_value
  body_trial_transaction :: json_value
  body_password :: "string option"
  body_action :: "string option"

text \<open>
  \<^verbatim>\<open>NextResponse.json(body, { status })\<close>: the status (200 when none is given),
  whether the body has \<^verbatim>\<open>success: true\<close>, and its \<^verbatim>\<open>error\<close>, \<^verbatim>\<open>credits\<close> and \<^verbatim>\<open>user\<close>
  members. The \<^verbatim>\<open>message\<close> texts are left out.
\<close>

record 'u response =
  status :: nat
  success :: bool
  res_error :: "string option"
  res_credits :: "int option"
  res_user :: "'u option"

definition error_response :: "nat \<Rightarrow> string \<Rightarrow> 'u response" where
  "error_response st m =
     \<lparr>status = st, success = False, res_error = Some m, res_credits = None, res_user = None\<rparr>"

definition success_response :: "'u option \<Rightarrow> 'u response" where
  "success_response u =
     \<lparr>status = 200, success = True, res_error = None, res_credits = None, res_user = u\<rparr>"

text \<open>\<^verbatim>\<open>error instanceof Error ? error.message : 'Internal server error'\<close>\<close>

fun errorMessage :: "exn \<Rightarrow> string" where
  "errorMessage (CreditError m c) = m"
| "errorMessage (Error m) = m"

text \<open>
  \<^verbatim>\<open>parseFloat(amount || '0') > 0\<close>. A missing amount, the number 0 and the empty string are
  falsy and give \<^verbatim>\<open>parseFloat('0')\<close>, which is 0; any other number is turned into its string
  and parsed back to itself.
\<close>

definition amount_gt_0 :: "env \<Rightarrow> json_value \<Rightarrow> bool" where
  "amount_gt_0 e a =
     (case a of
        Absent \<Rightarrow> False
      | Num n \<Rightarrow> 0 < n
      | Str s \<Rightarrow> if s = [] then False
                 else (case parseFloat e s of None \<Rightarrow> False | Some x \<Rightarrow> 0 < x))"

subsection \<open>src/src/app/api/credits/route.ts\<close>

text \<open>
  The chain that sets \<^verbatim>\<open>creditsToAdd\<close> and \<^verbatim>\<open>subscriptionTypeForDb\<close>; \<open>None\<close> is its last
  branch, which returns the "ignored" response.
\<close>

definition creditsToAdd :: "env \<Rightarrow> payload \<Rightarrow> (int \<times> subscription_period option) option" where
  "creditsToAdd e body =
     (if body_event body = Some ''subscription-trial-start'' then Some (TRIAL_CREDITS, None)
      else if body_event body = Some ''subscription-payment'' \<and> amount_gt_0 e (body_amount body)
      then Some (MONTHLY_CREDITS, Some Monthly)
      else if body_action body = Some ''add_credits'' then
        (if body_subscription_type body = Some ''trial'' then Some (TRIAL_CREDITS, None)
         else if body_subscription_type body = Some ''monthly'' then Some (MONTHLY_CREDITS, Some Monthly)
         else if body_subscription_type body = Some ''yearly'' then Some (YEARLY_CREDITS, Some Yearly)
         else Some (TRIAL_CREDITS, None))
      else None)"

definition credits_POST :: "env \<Rightarrow> db \<Rightarrow> string + payload \<Rightarrow> user response \<times> db" where
  "credits_POST e d req =
     (case req of
        Inl m \<Rightarrow> (error_response 500 m, d)
      | Inr body \<Rightarrow>
          (case or_null (body_buyer_email body) of
             None \<Rightarrow> (error_response 400 ''Email is required'', d)
           | Some addr \<Rightarrow>
               if body_action body = Some ''get_balance'' then
                 (case getCreditBalance e d addr of
                    Inl x \<Rightarrow> (error_response 500 (errorMessage x), d)
                  | Inr balance \<Rightarrow>
                      (\<lparr>status = 200, success = False, res_error = None,
                        res_credits = Some balance, res_user = None\<rparr>, d))
               else if truthy (body_event body) \<or> body_action body = Some ''add_credits'' then
                 (case creditsToAdd e body of
                    None \<Rightarrow> (success_response None, d)
                  | Some (n, subscriptionTypeForDb) \<Rightarrow>
                      (case signUpUser e d addr (body_password body) of
                         Inl x \<Rightarrow> (error_response 500 (errorMessage x), d)
                       | Inr authUserId \<Rightarrow>
                           (case addCredits e d addr n subscriptionTypeForDb (or_null authUserId) of
                              (Inl x, d') \<Rightarrow> (error_response 500 (errorMessage x), d')
                            | (Inr updatedUser, d') \<Rightarrow> (success_response (Some updatedUser), d'))))
               else (error_response 400 ''Invalid request - no valid action or event found'', d)))"

subsection \<open>src/Desktop/colpageapp-master/src/app/api/groovesell-webhook/route.ts\<close>

text \<open>
  \<^verbatim>\<open>PRODUCT_TIER_MAPPING\<close> is an object literal with three entries. A lookup
  \<^verbatim>\<open>PRODUCT_TIER_MAPPING[productId]\<close> finds an entry, or, for one of the names that every
  object inherits from \<^verbatim>\<open>Object.prototype\<close>, the inherited property: a function or an object,
  which is truthy and has no \<^verbatim>\<open>tier\<close>, \<^verbatim>\<open>monthlyCredits\<close> or \<^verbatim>\<open>yearlyCredits\<close>. For any other
  name the lookup gives \<^verbatim>\<open>undefined\<close>.
\<close>

record product_config =
  tier :: subscription_tier
  monthlyCredits :: int
  yearlyCredits :: int

datatype property = Entry product_config | Inherited

definition entries :: "(string \<times> product_config) list" where
  "entries =
     [(''90143'', \<lparr>tier = Basic, monthlyCredits = 5, yearlyCredits = 60\<rparr>),
      (''90211'', \<lparr>tier = Standard, monthlyCredits = 10, yearlyCredits = 120\<rparr>),
      (''90212'', \<lparr>tier = Premium, monthlyCredits = 30, yearlyCredits = 360\<rparr>)]"

definition Object_prototype :: "string list" where
  "Object_prototype =
     [''constructor'', ''__defineGetter__'', ''__defineSetter__'', ''hasOwnProperty'',
      ''__lookupGetter__'', ''__lookupSetter__'', ''isPrototypeOf'', ''propertyIsEnumerable'',
      ''toString'', ''valueOf'', ''__proto__'', ''toLocaleString'']"

definition PRODUCT_TIER_MAPPING :: "string \<Rightarrow> property option" where
  "PRODUCT_TIER_MAPPING productId =
     (case map_of entries productId of
        Some c \<Rightarrow> Some (Entry c)
      | None \<Rightarrow> if productId \<in> set Object_prototype then Some Inherited else None)"

text \<open>\<^verbatim>\<open>productConfig.tier\<close>, \<^verbatim>\<open>.monthlyCredits\<close> and \<^verbatim>\<open>.yearlyCredits\<close>.\<close>

fun config_tier :: "property \<Rightarrow> subscription_tier option" where
  "config_tier (Entry c) = Some (tier c)"
| "config_tier Inherited = None"

fun config_monthlyCredits :: "property \<Rightarrow> number" where
  "config_monthlyCredits (Entry c) = Number (monthlyCredits c)"
| "config_monthlyCredits Inherited = NaN"

fun config_yearlyCredits :: "property \<Rightarrow> number" where
  "config_yearlyCredits (Entry c) = Number (yearlyCredits c)"
| "config_yearlyCredits Inherited = NaN"

text \<open>The \<^verbatim>\<open>user\<close> member of a response of this route.\<close>

record user_summary =
  sum_email :: string
  sum_credits :: int
  sum_subscription_tier :: "subscription_tier option"
  sum_subscription_type :: "subscription_period option"

text \<open>
  The update of \<^verbatim>\<open>subscription_tier\<close> after the credits are added. Its reply is not looked
  at, and an exception is caught on the spot.
\<close>

definition update_subscription_tier ::
  "env \<Rightarrow> db \<Rightarrow> string \<Rightarrow> subscription_tier option \<Rightarrow> db" where
  "update_subscription_tier e d i t =
     (if supabaseAdmin e
      then snd (update_users e (supabaseAdmin e) d (\<lambda>r. uid r = i)
                  \<lparr>set_credits = None, set_subscription_type = None, set_subscription_tier = t,
                   set_subscription_expires_at = None, set_updated_at = now e\<rparr>)
      else d)"

definition groovesell_webhook_POST ::
  "env \<Rightarrow> db \<Rightarrow> string + payload \<Rightarrow> user_summary response \<times> db" where
  "groovesell_webhook_POST e d req =
     (case req of
        Inl m \<Rightarrow> ((success_response None)\<lparr>res_error := Some m\<rparr>, d)
      | Inr body \<Rightarrow>
          (case (or_null (body_buyer_email body), or_null (body_product_id body)) of
             (Some addr, Some productId) \<Rightarrow>
               (case PRODUCT_TIER_MAPPING productId of
                  None \<Rightarrow> (error_response 400 (''Unknown product ID: '' @ productId), d)
                | Some productConfig \<Rightarrow>
                    if body_event body = Some ''subscription-trial-start''
                       \<and> body_trial_transaction body = Num 1 then
                      (let authUserId =
                             (case signUpUser_master e d addr (body_password body) of
                                Inl x \<Rightarrow> None
                              | Inr i \<Rightarrow> i)
                       in case addCredits_master e d addr (Number TRIAL_CREDITS) None
                                 (or_null authUserId) of
                            (Inl x, d') \<Rightarrow>
                              ((success_response None)\<lparr>res_error := Some (errorMessage x)\<rparr>, d')
                          | (Inr updatedUser, d') \<Rightarrow>
                              (success_response
                                 (Some \<lparr>sum_email = email updatedUser, sum_credits = credits updatedUser,
                                        sum_subscription_tier = config_tier productConfig,
                                        sum_subscription_type = None\<rparr>),
                               update_subscription_tier e d' (uid updatedUser)
                                 (config_tier productConfig)))
                    else if body_event body = Some ''subscription-payment''
                            \<and> amount_gt_0 e (body_amount body) then
                      (let n = (if body_subscription_type body = Some ''Yearly''
                                then config_yearlyCredits productConfig
                                else config_monthlyCredits productConfig);
                           subscriptionTypeForDb =
                               (if body_subscription_type body = Some ''Yearly'' then Yearly else Monthly)
                       in case addCredits_master e d addr n (Some subscriptionTypeForDb) None of
                            (Inl x, d') \<Rightarrow>
                              ((success_response None)\<lparr>res_error := Some (errorMessage x)\<rparr>, d')
                          | (Inr updatedUser, d') \<Rightarrow>
                              (success_response
                                 (Some \<lparr>sum_email = email updatedUser, sum_credits = credits updatedUser,
                                        sum_subscription_tier = config_tier productConfig,
                                        sum_subscription_type = Some subscriptionTypeForDb\<rparr>),
                               update_subscription_tier e d' (uid updatedUser)
                                 (config_tier productConfig)))
                    else (success_response None, d))
           | _ \<Rightarrow> (error_response 400 ''Missing required fields'', d)))"

subsection \<open>Conditions used in the statements\<close>


text \<open>
  An event that grants nothing: its type is not the start of a trial, and if it is a payment,
  the amount is not above 0.
\<close>

definition grants_nothing :: "env \<Rightarrow> payload \<Rightarrow> bool" where
  "grants_nothing e body =
     (body_event body \<noteq> Some ''subscription-trial-start''
      \<and> (body_event body = Some ''subscription-payment'' \<longrightarrow> \<not> amount_gt_0 e (body_amount body)))"

text \<open>
  What the groovesell-webhook route asks of a body before it looks at the event: a buyer
  email, a product id, and that the lookup of the product id finds something.
\<close>

definition validated :: "payload \<Rightarrow> bool" where
  "validated body =
     (case (or_null (body_buyer_email body), or_null (body_product_id body)) of
        (Some addr, Some productId) \<Rightarrow> PRODUCT_TIER_MAPPING productId \<noteq> None
      | _ \<Rightarrow> False)"

subsection \<open>A small ledger to run the code on\<close>

definition ex_date :: js_date where
  "ex_date = \<lparr>getFullYear = 2025, getMonth = 0, getDate = 15, timeOfDay = 43200000\<rparr>"

definition ex_env :: env where
  "ex_env = \<lparr>supabase = True, supabaseAdmin = True, faults = [],
             createUser_reply = AuthUser None, now = ex_date,
             parseFloat = (\<lambda>s. if s = ''0.00'' then Some 0
                                else if s = ''9.99'' then Some (999 / 100) else None)\<rparr>"

definition ex_outage :: env where
  "ex_outage = ex_env\<lparr>faults := [(SelectUsers, Throws ''fetch failed'')]\<rparr>"

definition ex_user :: user where
  "ex_user = \<lparr>uid = ''u-1'', email = ''a@x.com'', credits = 7, subscription_type = None,
              subscription_tier = None, subscription_expires_at = None,
              created_at = ex_date, updated_at = ex_date\<rparr>"

definition ex_db :: db where
  "ex_db = \<lparr>users = [ex_user], credit_transactions = []\<rparr>"

definition ex_trial_start :: payload where
  "ex_trial_start =
     \<lparr>body_event = Some ''subscription-trial-start'', body_buyer_email = Some ''a@x.com'',
      body_product_id = Some ''90143'', body_subscription_type = None, body_amount = Str ''0.00'',
      body_trial_transaction = Num 1, body_password = Some ''secret'', body_action = None\<rparr>"

definition ex_free_payment :: payload where
  "ex_free_payment =
     \<lparr>body_event = Some ''subscription-payment'', body_buyer_email = Some ''a@x.com'',
      body_product_id = Some ''90143'', body_subscription_type = None, body_amount = Str ''0.00'',
      body_trial_transaction = Absent, body_password = None, body_action = None\<rparr>"

section \<open>Properties\<close>

subsection \<open>Looking a user up\<close>

lemma filter_key_unique:
  "distinct (map f xs) \<Longrightarrow> u \<in> set xs \<Longrightarrow> filter (\<lambda>x. f x = f u) xs = [u]"
proof (induction xs)
  case Nil
  then show ?case by simp
next
  case (Cons a xs)
  show ?case
  proof (cases "a = u")
    case True
    with Cons.prems have "\<forall>x\<in>set xs. f x \<noteq> f u" by (auto simp: image_iff)
    then have "filter (\<lambda>x. f x = f u) xs = []" by (simp add: filter_empty_conv)
    with True show ?thesis by simp
  next
    case False
    with Cons.prems have "u \<in> set xs" and "f a \<noteq> f u" and "distinct (map f xs)" by auto
    with Cons.IH show ?thesis by simp
  qed
qed

lemma filter_key_absent:
  "a \<notin> f ` set xs \<Longrightarrow> filter (\<lambda>x. f x = a) xs = []"
  by (auto simp: filter_empty_conv)

lemma healthy_send: "healthy e \<Longrightarrow> send e (supabase e) r = None \<and> send e (supabaseAdmin e) r = None"
  by (simp add: healthy_def send_def)

lemma readable_supabase: "readable e \<Longrightarrow> supabase e"
  by (auto simp: readable_def send_def split: if_splits)

lemma getUserByEmail_found:
  "readable e \<Longrightarrow> schema_ok d \<Longrightarrow> u \<in> set (users d) \<Longrightarrow> getUserByEmail e d (email u) = Inr (Some u)"
  by (simp add: getUserByEmail_def select_users_def single_def readable_def schema_ok_def
      filter_key_unique catch_unknown_def)

lemma getUserByEmail_absent:
  "readable e \<Longrightarrow> addr \<notin> email ` set (users d) \<Longrightarrow> getUserByEmail e d addr = Inr None"
  by (simp add: getUserByEmail_def select_users_def single_def readable_def
      filter_key_absent catch_unknown_def)

lemma send_not_PGRST116: "send e c r \<noteq> Some (Returned PGRST116)"
  by (simp add: send_def split: option.splits fault.splits)

lemma getUserByEmail_fault:
  "\<not> readable e \<Longrightarrow> \<exists>x. getUserByEmail e d addr = Inl x"
  using send_not_PGRST116 [of e "supabase e" SelectUsers]
  by (auto simp: getUserByEmail_def select_users_def single_def readable_def catch_unknown_def
      split: option.splits failure.splits pg_error.splits)

lemma getUserByEmail_master_found:
  assumes "readable e" "schema_ok d" "u \<in> set (users d)"
  shows "getUserByEmail_master e d (email u) = Inr (Some u)"
proof -
  have s: "supabase e" using assms(1) by (rule readable_supabase)
  have n: "send e True SelectUsers = None" using assms(1) s by (simp add: readable_def)
  have f: "filter (\<lambda>x. email x = email u) (users d) = [u]"
    using assms(2,3) by (simp add: schema_ok_def filter_key_unique)
  show ?thesis
    by (simp add: getUserByEmail_master_def select_users_def s n f catch_unknown_def)
qed

lemma getUserByEmail_master_absent:
  assumes "readable e" "addr \<notin> email ` set (users d)"
  shows "getUserByEmail_master e d addr = Inr None"
proof -
  have s: "supabase e" using assms(1) by (rule readable_supabase)
  have n: "send e True SelectUsers = None" using assms(1) s by (simp add: readable_def)
  have f: "filter (\<lambda>x. email x = addr) (users d) = []"
    using assms(2) by (rule filter_key_absent)
  show ?thesis
    by (simp add: getUserByEmail_master_def select_users_def s n f catch_unknown_def)
qed

lemma healthy_readable: "healthy e \<Longrightarrow> readable e"
  by (simp add: healthy_def readable_def send_def)

lemma getUserByEmail_master_fault:
  "\<not> readable e \<Longrightarrow> \<exists>x. getUserByEmail_master e d addr = Inl x"
  by (auto simp: getUserByEmail_master_def select_users_def readable_def catch_unknown_def send_def
      split: option.splits failure.splits pg_error.splits fault.splits)


subsection \<open>Debits\<close>

lemma distinct_key_eq:
  "distinct (map f xs) \<Longrightarrow> u \<in> set xs \<Longrightarrow> r \<in> set xs \<Longrightarrow> f r = f u \<longleftrightarrow> r = u"
  by (auto simp: distinct_map inj_on_def)

lemma map_upd_key:
  assumes "distinct (map f xs)" "u \<in> set xs"
  shows "map (\<lambda>r. if f r = f u then g r else r) xs = map (\<lambda>r. if r = u then g u else r) xs"
  using assms by (auto simp: distinct_key_eq [of f xs u])

lemma apply_debit:
  "apply_patch \<lparr>set_credits = Some (Number n), set_subscription_type = None,
                 set_subscription_tier = None, set_subscription_expires_at = None,
                 set_updated_at = t\<rparr> u = u\<lparr>credits := n, updated_at := t\<rparr>"
  by (simp add: apply_patch_def)

lemma pg_message_out_of_range:
  "pg_message (out_of_range n) = ''value '' @ show_int n @ '' is out of range for type integer''"
  by (simp add: out_of_range_def)

lemma useCredits_ok:
  assumes h: "healthy e" and s: "schema_ok d" and u: "u \<in> set (users d)"
    and a: "amt \<le> credits u" and r: "int32 (credits u - amt)"
  shows "useCredits e d (email u) amt =
     (Inr (u\<lparr>credits := credits u - amt, updated_at := now e\<rparr>),
      d\<lparr>users := map (\<lambda>r. if r = u then u\<lparr>credits := credits u - amt, updated_at := now e\<rparr> else r) (users d),
        credit_transactions := credit_transactions d @
          (if int32 (- amt)
           then [\<lparr>user_id = uid u, amount = - amt, transaction_type = Usage,
                   description = ''Image generation'', tx_created_at = now e\<rparr>]
           else [])\<rparr>)"
proof -
  have g: "getUserByEmail e d (email u) = Inr (Some u)"
    using h s u by (simp add: getUserByEmail_found healthy_readable)
  have f: "filter (\<lambda>x. email x = email u) (users d) = [u]"
    using s u by (simp add: schema_ok_def filter_key_unique)
  have m: "map (\<lambda>r. if email r = email u
                    then apply_patch \<lparr>set_credits = Some (Number (credits u - amt)),
                           set_subscription_type = None, set_subscription_tier = None,
                           set_subscription_expires_at = None, set_updated_at = now e\<rparr> r
                    else r) (users d)
         = map (\<lambda>r. if r = u then u\<lparr>credits := credits u - amt, updated_at := now e\<rparr> else r) (users d)"
    using s u map_upd_key [of email "users d" u
        "apply_patch \<lparr>set_credits = Some (Number (credits u - amt)),
                           set_subscription_type = None, set_subscription_tier = None,
                           set_subscription_expires_at = None, set_updated_at = now e\<rparr>"]
    by (simp add: schema_ok_def apply_debit)
  have i': "uid u \<in> (\<lambda>x. uid (if x = u then u\<lparr>credits := credits u - amt, updated_at := now e\<rparr> else x)) ` set (users d)"
    using u by (force simp: image_iff)
  show ?thesis
    using a r healthy_send [OF h]
    by (simp add: useCredits_def g update_users_single_def refuses_def f m apply_debit i'
        logCreditTransaction_def insert_transaction_def catch_unknown_def)
qed

lemma useCredits_master_ok:
  assumes h: "healthy e" and s: "schema_ok d" and u: "u \<in> set (users d)"
    and a: "amt \<le> credits u" and r: "int32 (credits u - amt)"
  shows "useCredits_master e d (email u) amt =
     (Inr (u\<lparr>credits := credits u - amt, updated_at := now e\<rparr>),
      d\<lparr>users := map (\<lambda>r. if r = u then u\<lparr>credits := credits u - amt, updated_at := now e\<rparr> else r) (users d),
        credit_transactions := credit_transactions d @
          (if int32 (- amt)
           then [\<lparr>user_id = uid u, amount = - amt, transaction_type = Usage,
                   description = ''Image generation'', tx_created_at = now e\<rparr>]
           else [])\<rparr>)"
proof -
  have c: "supabase e" "supabaseAdmin e" using h by (simp_all add: healthy_def)
  have g: "getUserByEmail_master e d (email u) = Inr (Some u)"
    using h s u by (simp add: getUserByEmail_master_found healthy_readable)
  have f: "filter (\<lambda>x. uid x = uid u) (users d) = [u]"
    using s u by (simp add: schema_ok_def filter_key_unique)
  have m: "map (\<lambda>r. if uid r = uid u
                    then apply_patch \<lparr>set_credits = Some (Number (credits u - amt)),
                           set_subscription_type = None, set_subscription_tier = None,
                           set_subscription_expires_at = None, set_updated_at = now e\<rparr> r
                    else r) (users d)
         = map (\<lambda>r. if r = u then u\<lparr>credits := credits u - amt, updated_at := now e\<rparr> else r) (users d)"
    using s u map_upd_key [of uid "users d" u
        "apply_patch \<lparr>set_credits = Some (Number (credits u - amt)),
                           set_subscription_type = None, set_subscription_tier = None,
                           set_subscription_expires_at = None, set_updated_at = now e\<rparr>"]
    by (simp add: schema_ok_def apply_debit)
  have i': "uid u \<in> (\<lambda>x. uid (if x = u then u\<lparr>credits := credits u - amt, updated_at := now e\<rparr> else x)) ` set (users d)"
    using u by (force simp: image_iff)
  show ?thesis
    using a r healthy_send [OF h] c
    by (simp add: useCredits_master_def g update_users_single_def refuses_def f m apply_debit i'
        logCreditTransaction_master_def insert_transaction_def catch_unknown_def)
qed

lemma useCredits_out_of_range:
  assumes h: "healthy e" and s: "schema_ok d" and u: "u \<in> set (users d)"
    and a: "amt \<le> credits u" and r: "\<not> int32 (credits u - amt)"
  shows "useCredits e d (email u) amt =
     (Inl (CreditError (''Failed to use credits: value '' @ show_int (credits u - amt)
                          @ '' is out of range for type integer'') ''USE_CREDITS_ERROR''), d)"
    and "useCredits_master e d (email u) amt =
     (Inl (CreditError (''Failed to use credits: value '' @ show_int (credits u - amt)
                          @ '' is out of range for type integer'') ''USE_CREDITS_ERROR''), d)"
proof -
  have c: "supabase e" "supabaseAdmin e" using h by (simp_all add: healthy_def)
  have g: "getUserByEmail e d (email u) = Inr (Some u)"
    using h s u by (simp add: getUserByEmail_found healthy_readable)
  have g': "getUserByEmail_master e d (email u) = Inr (Some u)"
    using h s u by (simp add: getUserByEmail_master_found healthy_readable)
  show "useCredits e d (email u) amt =
     (Inl (CreditError (''Failed to use credits: value '' @ show_int (credits u - amt)
                          @ '' is out of range for type integer'') ''USE_CREDITS_ERROR''), d)"
    using a r healthy_send [OF h]
    by (simp add: useCredits_def g update_users_single_def refuses_def
        pg_message_out_of_range catch_unknown_def)
  show "useCredits_master e d (email u) amt =
     (Inl (CreditError (''Failed to use credits: value '' @ show_int (credits u - amt)
                          @ '' is out of range for type integer'') ''USE_CREDITS_ERROR''), d)"
    using a r healthy_send [OF h] c
    by (simp add: useCredits_master_def g' update_users_single_def refuses_def
        pg_message_out_of_range catch_unknown_def)
qed

lemma useCredits_absent:
  assumes "readable e" "addr \<notin> email ` set (users d)"
  shows "useCredits e d addr amt = (Inl (CreditError ''User not found'' ''USER_NOT_FOUND''), d)"
  using assms by (simp add: useCredits_def getUserByEmail_absent catch_unknown_def)

lemma useCredits_master_absent:
  assumes "readable e" "addr \<notin> email ` set (users d)"
  shows "useCredits_master e d addr amt = (Inl (CreditError ''User not found'' ''USER_NOT_FOUND''), d)"
  using assms readable_supabase [of e]
  by (simp add: useCredits_master_def getUserByEmail_master_absent catch_unknown_def)

lemma useCredits_insufficient:
  assumes "readable e" "schema_ok d" "u \<in> set (users d)" "credits u < amt"
  shows "useCredits e d (email u) amt =
           (Inl (CreditError ''Insufficient credits'' ''INSUFFICIENT_CREDITS''), d)"
  using assms by (simp add: useCredits_def getUserByEmail_found catch_unknown_def)

lemma useCredits_master_insufficient:
  assumes "readable e" "schema_ok d" "u \<in> set (users d)" "credits u < amt"
  shows "useCredits_master e d (email u) amt =
           (Inl (CreditError ''Insufficient credits'' ''INSUFFICIENT_CREDITS''), d)"
  using assms readable_supabase [of e]
  by (simp add: useCredits_master_def getUserByEmail_master_found catch_unknown_def)

lemma ex_healthy: "healthy ex_env" by (simp add: healthy_def ex_env_def)
lemma ex_schema_ok: "schema_ok ex_db" by (simp add: schema_ok_def ex_db_def)
lemma ex_user_in: "ex_user \<in> set (users ex_db)" by (simp add: ex_db_def)

lemmas run_defs =
  credits_POST_def groovesell_webhook_POST_def creditsToAdd_def amount_gt_0_def
  signUpUser_def signUpUser_master_def addCredits_def addCredits_master_def
  useCredits_def useCredits_master_def getCreditBalance_def getCreditBalance_master_def
  getUserByEmail_def getUserByEmail_master_def createUser_def createUser_master_def
  logCreditTransaction_def logCreditTransaction_master_def update_subscription_tier_def
  select_users_def single_def insert_user_def update_users_def update_users_single_def
  insert_transaction_def send_def catch_unknown_def updateData_def purchase_description_def
  apply_patch_def refuses_def int32_def out_of_range_def not_null_def show_int_def show_nat.simps
  or_null_def truthy_def success_response_def error_response_def PRODUCT_TIER_MAPPING_def
  entries_def Object_prototype_def
  TRIAL_CREDITS_def MONTHLY_CREDITS_def YEARLY_CREDITS_def INITIAL_CREDITS_def

lemmas ex_defs =
  ex_env_def ex_outage_def ex_db_def ex_user_def ex_trial_start_def ex_free_payment_def




lemma useCredits_result_cases:
  assumes h: "healthy e" and s: "schema_ok d"
  shows "(\<exists>x. fst (useCredits e d addr a) = Inl x) \<longleftrightarrow>
           (addr \<notin> email ` set (users d)
            \<or> (\<exists>u\<in>set (users d). email u = addr \<and> (credits u < a \<or> \<not> int32 (credits u - a))))"
    and "(\<exists>x. fst (useCredits_master e d addr a) = Inl x) \<longleftrightarrow>
           (addr \<notin> email ` set (users d)
            \<or> (\<exists>u\<in>set (users d). email u = addr \<and> (credits u < a \<or> \<not> int32 (credits u - a))))"
proof -
  have "((\<exists>x. fst (useCredits e d addr a) = Inl x) \<longleftrightarrow>
           (addr \<notin> email ` set (users d)
            \<or> (\<exists>u\<in>set (users d). email u = addr \<and> (credits u < a \<or> \<not> int32 (credits u - a)))))
      \<and> ((\<exists>x. fst (useCredits_master e d addr a) = Inl x) \<longleftrightarrow>
           (addr \<notin> email ` set (users d)
            \<or> (\<exists>u\<in>set (users d). email u = addr \<and> (credits u < a \<or> \<not> int32 (credits u - a)))))"
  proof (cases "addr \<in> email ` set (users d)")
    case False
    then show ?thesis
      using h by (simp add: useCredits_absent useCredits_master_absent healthy_readable)
  next
    case True
    then obtain u where u: "u \<in> set (users d)" "email u = addr" by auto
    have only: "\<And>v. v \<in> set (users d) \<Longrightarrow> email v = addr \<Longrightarrow> v = u"
      using s u distinct_key_eq [of email "users d" u] by (simp add: schema_ok_def)
    have bad: "(\<exists>v\<in>set (users d). email v = addr \<and> (credits v < a \<or> \<not> int32 (credits v - a)))
        \<longleftrightarrow> (credits u < a \<or> \<not> int32 (credits u - a))"
      using only u by blast
    show ?thesis
    proof (cases "credits u < a")
      case True
      then show ?thesis
        using useCredits_insufficient [OF healthy_readable [OF h] s u(1), of a]
          useCredits_master_insufficient [OF healthy_readable [OF h] s u(1), of a] u bad
        by auto
    next
      case False
      then have le: "a \<le> credits u" by simp
      show ?thesis
      proof (cases "int32 (credits u - a)")
        case True
        then show ?thesis
          using useCredits_ok [OF h s u(1) le True] useCredits_master_ok [OF h s u(1) le True]
            u bad False \<open>addr \<in> email ` set (users d)\<close>
          by simp
      next
        case nr: False
        then show ?thesis
          using useCredits_out_of_range [OF h s u(1) le nr] u bad by auto
      qed
    qed
  qed
  then show "(\<exists>x. fst (useCredits e d addr a) = Inl x) \<longleftrightarrow>
           (addr \<notin> email ` set (users d)
            \<or> (\<exists>u\<in>set (users d). email u = addr \<and> (credits u < a \<or> \<not> int32 (credits u - a))))"
    and "(\<exists>x. fst (useCredits_master e d addr a) = Inl x) \<longleftrightarrow>
           (addr \<notin> email ` set (users d)
            \<or> (\<exists>u\<in>set (users d). email u = addr \<and> (credits u < a \<or> \<not> int32 (credits u - a))))"
    by blast+
qed

text \<open>
  C2, as the code has it. On a healthy store \<open>useCredits\<close> rejects exactly when no account
  has the email, or the balance \<open>B\<close> is below the amount \<open>A\<close>, or \<open>B \<ge> A\<close> and \<open>B - A\<close> lies
  outside the range of the INTEGER column. The first rejection is the CreditError
  USER_NOT_FOUND, the second INSUFFICIENT_CREDITS, the third a CreditError with the code
  USE_CREDITS_ERROR. In all three the database is returned as it was: no balance changed,
  no account created, no transaction logged. Both generations of the code do so.
\<close>

theorem useCredits_fails_iff:
  assumes "healthy e" and "schema_ok d"
  shows "((\<exists>x. fst (useCredits e d addr a) = Inl x) \<longleftrightarrow>
            (addr \<notin> email ` set (users d)
             \<or> (\<exists>u\<in>set (users d). email u = addr \<and> (credits u < a \<or> \<not> int32 (credits u - a)))))
       \<and> (addr \<notin> email ` set (users d) \<longrightarrow>
            useCredits e d addr a = (Inl (CreditError ''User not found'' ''USER_NOT_FOUND''), d))
       \<and> (\<forall>u\<in>set (users d). email u = addr \<and> credits u < a \<longrightarrow>
            useCredits e d addr a = (Inl (CreditError ''Insufficient credits'' ''INSUFFICIENT_CREDITS''), d))
       \<and> (\<forall>u\<in>set (users d). email u = addr \<and> a \<le> credits u \<and> \<not> int32 (credits u - a) \<longrightarrow>
            (\<exists>m. useCredits e d addr a = (Inl (CreditError m ''USE_CREDITS_ERROR''), d)))
       \<and> ((\<exists>x. fst (useCredits_master e d addr a) = Inl x) \<longleftrightarrow>
            (addr \<notin> email ` set (users d)
             \<or> (\<exists>u\<in>set (users d). email u = addr \<and> (credits u < a \<or> \<not> int32 (credits u - a)))))
       \<and> (addr \<notin> email ` set (users d) \<longrightarrow>
            useCredits_master e d addr a = (Inl (CreditError ''User not found'' ''USER_NOT_FOUND''), d))
       \<and> (\<forall>u\<in>set (users d). email u = addr \<and> credits u < a \<longrightarrow>
            useCredits_master e d addr a =
              (Inl (CreditError ''Insufficient credits'' ''INSUFFICIENT_CREDITS''), d))
       \<and> (\<forall>u\<in>set (users d). email u = addr \<and> a \<le> credits u \<and> \<not> int32 (credits u - a) \<longrightarrow>
            (\<exists>m. useCredits_master e d addr a = (Inl (CreditError m ''USE_CREDITS_ERROR''), d)))"
proof -
  note r = healthy_readable [OF assms(1)]
  show ?thesis
  proof (intro conjI impI ballI)
    show "(\<exists>x. fst (useCredits e d addr a) = Inl x) \<longleftrightarrow>
            (addr \<notin> email ` set (users d)
             \<or> (\<exists>u\<in>set (users d). email u = addr \<and> (credits u < a \<or> \<not> int32 (credits u - a))))"
      by (rule useCredits_result_cases(1) [OF assms])
    show "(\<exists>x. fst (useCredits_master e d addr a) = Inl x) \<longleftrightarrow>
            (addr \<notin> email ` set (users d)
             \<or> (\<exists>u\<in>set (users d). email u = addr \<and> (credits u < a \<or> \<not> int32 (credits u - a))))"
      by (rule useCredits_result_cases(2) [OF assms])
  next
    assume "addr \<notin> email ` set (users d)"
    then show "useCredits e d addr a = (Inl (CreditError ''User not found'' ''USER_NOT_FOUND''), d)"
      by (rule useCredits_absent [OF r])
  next
    assume "addr \<notin> email ` set (users d)"
    then show "useCredits_master e d addr a = (Inl (CreditError ''User not found'' ''USER_NOT_FOUND''), d)"
      by (rule useCredits_master_absent [OF r])
  next
    fix u assume "u \<in> set (users d)" and "email u = addr \<and> credits u < a"
    then show "useCredits e d addr a =
        (Inl (CreditError ''Insufficient credits'' ''INSUFFICIENT_CREDITS''), d)"
      using useCredits_insufficient [OF r assms(2), of u a] by auto
  next
    fix u assume "u \<in> set (users d)" and "email u = addr \<and> credits u < a"
    then show "useCredits_master e d addr a =
        (Inl (CreditError ''Insufficient credits'' ''INSUFFICIENT_CREDITS''), d)"
      using useCredits_master_insufficient [OF r assms(2), of u a] by auto
  next
    fix u assume "u \<in> set (users d)"
      and "email u = addr \<and> a \<le> credits u \<and> \<not> int32 (credits u - a)"
    then show "\<exists>m. useCredits e d addr a = (Inl (CreditError m ''USE_CREDITS_ERROR''), d)"
      using useCredits_out_of_range(1) [OF assms, of u a] by auto
  next
    fix u assume "u \<in> set (users d)"
      and "email u = addr \<and> a \<le> credits u \<and> \<not> int32 (credits u - a)"
    then show "\<exists>m. useCredits_master e d addr a = (Inl (CreditError m ''USE_CREDITS_ERROR''), d)"
      using useCredits_out_of_range(2) [OF assms, of u a] by auto
  qed
qed

theorem useCredits_fails_iff_witness:
  "healthy ex_env \<and> schema_ok ex_db
   \<and> ''ghost@x.com'' \<notin> email ` set (users ex_db)
   \<and> useCredits ex_env ex_db ''ghost@x.com'' 1 = (Inl (CreditError ''User not found'' ''USER_NOT_FOUND''), ex_db)
   \<and> ex_user \<in> set (users ex_db) \<and> email ex_user = ''a@x.com'' \<and> credits ex_user < 10
   \<and> useCredits ex_env ex_db ''a@x.com'' 10 =
        (Inl (CreditError ''Insufficient credits'' ''INSUFFICIENT_CREDITS''), ex_db)
   \<and> useCredits_master ex_env ex_db ''a@x.com'' 10 =
        (Inl (CreditError ''Insufficient credits'' ''INSUFFICIENT_CREDITS''), ex_db)
   \<and> - 2147483641 \<le> credits ex_user \<and> \<not> int32 (credits ex_user - (- 2147483641))
   \<and> (\<exists>m. useCredits ex_env ex_db ''a@x.com'' (- 2147483641) =
          (Inl (CreditError m ''USE_CREDITS_ERROR''), ex_db))
   \<and> \<not> (\<exists>x. fst (useCredits ex_env ex_db ''a@x.com'' 7) = Inl x)"
proof -
  have g: "''ghost@x.com'' \<notin> email ` set (users ex_db)" by (simp add: ex_db_def ex_user_def)
  have u: "email ex_user = ''a@x.com''" "credits ex_user < 10" "\<not> credits ex_user < 7"
    "- 2147483641 \<le> credits ex_user" "\<not> int32 (credits ex_user - (- 2147483641))"
    by (simp_all add: ex_user_def int32_def)
  have only: "\<not> (''a@x.com'' \<notin> email ` set (users ex_db)
       \<or> (\<exists>v\<in>set (users ex_db). email v = ''a@x.com'' \<and> (credits v < 7 \<or> \<not> int32 (credits v - 7))))"
    by (simp add: ex_db_def ex_user_def int32_def)
  note t1 = useCredits_fails_iff [OF ex_healthy ex_schema_ok, of "''ghost@x.com''" 1]
  note t2 = useCredits_fails_iff [OF ex_healthy ex_schema_ok, of "''a@x.com''" 10]
  note t3 = useCredits_fails_iff [OF ex_healthy ex_schema_ok, of "''a@x.com''" 7]
  note t4 = useCredits_fails_iff [OF ex_healthy ex_schema_ok, of "''a@x.com''" "- 2147483641"]
  have a: "useCredits ex_env ex_db ''ghost@x.com'' 1 =
      (Inl (CreditError ''User not found'' ''USER_NOT_FOUND''), ex_db)"
    using t1 g by simp
  have b: "useCredits ex_env ex_db ''a@x.com'' 10 =
        (Inl (CreditError ''Insufficient credits'' ''INSUFFICIENT_CREDITS''), ex_db)"
    using t2 ex_user_in u(1,2) by blast
  have c: "useCredits_master ex_env ex_db ''a@x.com'' 10 =
        (Inl (CreditError ''Insufficient credits'' ''INSUFFICIENT_CREDITS''), ex_db)"
    using t2 ex_user_in u(1,2) by blast
  have d: "\<not> (\<exists>x. fst (useCredits ex_env ex_db ''a@x.com'' 7) = Inl x)"
    using t3 only by blast
  have f: "\<exists>m. useCredits ex_env ex_db ''a@x.com'' (- 2147483641) =
        (Inl (CreditError m ''USE_CREDITS_ERROR''), ex_db)"
    using t4 ex_user_in u(1,4,5) by blast
  show ?thesis
    using ex_healthy ex_schema_ok ex_user_in g u(1,2,4,5) a b c d f by simp
qed

text \<open>
  The claim C2 as it was made knows two reasons for a rejection. There is a third: the account
  of the example exists and its balance 7 is not below the amount \<open>- 2147483641\<close>, yet the
  store refuses the new balance 2147483648 and \<open>useCredits\<close> rejects with USE_CREDITS_ERROR.
\<close>

theorem useCredits_fails_iff_counterexample:
  "''a@x.com'' \<in> email ` set (users ex_db)
   \<and> \<not> (\<exists>u\<in>set (users ex_db). email u = ''a@x.com'' \<and> credits u < - 2147483641)
   \<and> fst (useCredits ex_env ex_db ''a@x.com'' (- 2147483641)) =
        Inl (CreditError ''Failed to use credits: value 2147483648 is out of range for type integer''
               ''USE_CREDITS_ERROR'')
   \<and> fst (useCredits_master ex_env ex_db ''a@x.com'' (- 2147483641)) =
        Inl (CreditError ''Failed to use credits: value 2147483648 is out of range for type integer''
               ''USE_CREDITS_ERROR'')"
  by (simp add: run_defs ex_defs)

subsection \<open>The two checks that never fail\<close>

lemma ex_readable: "readable ex_env"
  by (rule healthy_readable [OF ex_healthy])

lemma ex_outage_unreadable: "\<not> readable ex_outage"
  by (simp add: readable_def send_def ex_outage_def ex_env_def)

lemma ex_ghost_absent: "''ghost@x.com'' \<notin> email ` set (users ex_db)"
  by (simp add: ex_db_def ex_user_def)

text \<open>
  C3. \<open>hasEnoughCredits\<close> never rejects. When the lookup is served and an account has the
  email, its answer is whether the balance reaches the required amount; when the lookup is
  served and no account has the email, the answer is false; when the lookup fails (a null
  client, a rejected or an erroneous request), the answer is true. Both generations of the
  code do so.
\<close>

theorem hasEnoughCredits_fail_open:
  "(\<exists>b. hasEnoughCredits e d addr n = Inr b)
   \<and> (readable e \<longrightarrow> schema_ok d \<longrightarrow>
        (\<forall>u\<in>set (users d). email u = addr \<longrightarrow> hasEnoughCredits e d addr n = Inr (credits u \<ge> n)))
   \<and> (readable e \<longrightarrow> addr \<notin> email ` set (users d) \<longrightarrow> hasEnoughCredits e d addr n = Inr False)
   \<and> (\<not> readable e \<longrightarrow> hasEnoughCredits e d addr n = Inr True)
   \<and> (\<exists>b. hasEnoughCredits_master e d addr n = Inr b)
   \<and> (readable e \<longrightarrow> schema_ok d \<longrightarrow>
        (\<forall>u\<in>set (users d). email u = addr \<longrightarrow>
           hasEnoughCredits_master e d addr n = Inr (credits u \<ge> n)))
   \<and> (readable e \<longrightarrow> addr \<notin> email ` set (users d) \<longrightarrow>
        hasEnoughCredits_master e d addr n = Inr False)
   \<and> (\<not> readable e \<longrightarrow> hasEnoughCredits_master e d addr n = Inr True)"
proof (intro conjI impI ballI)
  show "\<exists>b. hasEnoughCredits e d addr n = Inr b"
    by (auto simp: hasEnoughCredits_def split: sum.splits option.splits)
  show "\<exists>b. hasEnoughCredits_master e d addr n = Inr b"
    by (auto simp: hasEnoughCredits_master_def split: sum.splits option.splits)
next
  fix u assume "readable e" "schema_ok d" "u \<in> set (users d)" "email u = addr"
  then show "hasEnoughCredits e d addr n = Inr (credits u \<ge> n)"
    using getUserByEmail_found [of e d u] by (auto simp: hasEnoughCredits_def)
next
  fix u assume "readable e" "schema_ok d" "u \<in> set (users d)" "email u = addr"
  then show "hasEnoughCredits_master e d addr n = Inr (credits u \<ge> n)"
    using getUserByEmail_master_found [of e d u] by (auto simp: hasEnoughCredits_master_def)
next
  assume "readable e" "addr \<notin> email ` set (users d)"
  then show "hasEnoughCredits e d addr n = Inr False"
    by (simp add: hasEnoughCredits_def getUserByEmail_absent)
next
  assume "readable e" "addr \<notin> email ` set (users d)"
  then show "hasEnoughCredits_master e d addr n = Inr False"
    by (simp add: hasEnoughCredits_master_def getUserByEmail_master_absent)
next
  assume "\<not> readable e"
  then show "hasEnoughCredits e d addr n = Inr True"
    using getUserByEmail_fault [of e d addr] by (auto simp: hasEnoughCredits_def)
next
  assume "\<not> readable e"
  then show "hasEnoughCredits_master e d addr n = Inr True"
    using getUserByEmail_master_fault [of e d addr] by (auto simp: hasEnoughCredits_master_def)
qed

theorem hasEnoughCredits_fail_open_witness:
  "readable ex_env \<and> schema_ok ex_db \<and> ex_user \<in> set (users ex_db) \<and> email ex_user = ''a@x.com''
   \<and> hasEnoughCredits ex_env ex_db ''a@x.com'' 7 = Inr True
   \<and> hasEnoughCredits_master ex_env ex_db ''a@x.com'' 8 = Inr False
   \<and> ''ghost@x.com'' \<notin> email ` set (users ex_db)
   \<and> hasEnoughCredits ex_env ex_db ''ghost@x.com'' 1 = Inr False
   \<and> \<not> readable ex_outage
   \<and> hasEnoughCredits ex_outage ex_db ''ghost@x.com'' 1 = Inr True
   \<and> hasEnoughCredits_master ex_outage ex_db ''a@x.com'' 100 = Inr True"
proof -
  have u: "email ex_user = ''a@x.com''" "credits ex_user = 7" by (simp_all add: ex_user_def)
  have a: "hasEnoughCredits ex_env ex_db ''a@x.com'' 7 = Inr True"
    using hasEnoughCredits_fail_open [of ex_env ex_db "''a@x.com''" 7]
      ex_readable ex_schema_ok ex_user_in u by auto
  have b: "hasEnoughCredits_master ex_env ex_db ''a@x.com'' 8 = Inr False"
    using hasEnoughCredits_fail_open [of ex_env ex_db "''a@x.com''" 8]
      ex_readable ex_schema_ok ex_user_in u by auto
  have c: "hasEnoughCredits ex_env ex_db ''ghost@x.com'' 1 = Inr False"
    using hasEnoughCredits_fail_open [of ex_env ex_db "''ghost@x.com''" 1]
      ex_readable ex_ghost_absent by simp
  have d: "hasEnoughCredits ex_outage ex_db ''ghost@x.com'' 1 = Inr True"
    using hasEnoughCredits_fail_open [of ex_outage ex_db "''ghost@x.com''" 1]
      ex_outage_unreadable by simp
  have f: "hasEnoughCredits_master ex_outage ex_db ''a@x.com'' 100 = Inr True"
    using hasEnoughCredits_fail_open [of ex_outage ex_db "''a@x.com''" 100]
      ex_outage_unreadable by simp
  show ?thesis
    using ex_readable ex_schema_ok ex_user_in u(1) ex_ghost_absent ex_outage_unreadable a b c d f
    by simp
qed

text \<open>
  C4. \<open>getCreditBalance\<close> never rejects. When the lookup is served and an account has the
  email, it resolves with the balance of that account; when no account has the email, and
  when the lookup fails, it resolves with 0. Both generations of the code do so.
\<close>

theorem getCreditBalance_never_throws:
  "(\<exists>n. getCreditBalance e d addr = Inr n)
   \<and> (readable e \<longrightarrow> schema_ok d \<longrightarrow>
        (\<forall>u\<in>set (users d). email u = addr \<longrightarrow> getCreditBalance e d addr = Inr (credits u)))
   \<and> (readable e \<longrightarrow> addr \<notin> email ` set (users d) \<longrightarrow> getCreditBalance e d addr = Inr 0)
   \<and> (\<not> readable e \<longrightarrow> getCreditBalance e d addr = Inr 0)
   \<and> (\<exists>n. getCreditBalance_master e d addr = Inr n)
   \<and> (readable e \<longrightarrow> schema_ok d \<longrightarrow>
        (\<forall>u\<in>set (users d). email u = addr \<longrightarrow> getCreditBalance_master e d addr = Inr (credits u)))
   \<and> (readable e \<longrightarrow> addr \<notin> email ` set (users d) \<longrightarrow> getCreditBalance_master e d addr = Inr 0)
   \<and> (\<not> readable e \<longrightarrow> getCreditBalance_master e d addr = Inr 0)"
proof (intro conjI impI ballI)
  show "\<exists>n. getCreditBalance e d addr = Inr n"
    by (simp add: getCreditBalance_def split: sum.splits option.splits)
  show "\<exists>n. getCreditBalance_master e d addr = Inr n"
    by (simp add: getCreditBalance_master_def split: sum.splits option.splits)
next
  fix u assume "readable e" "schema_ok d" "u \<in> set (users d)" "email u = addr"
  then show "getCreditBalance e d addr = Inr (credits u)"
    using getUserByEmail_found [of e d u] by (auto simp: getCreditBalance_def)
next
  fix u assume "readable e" "schema_ok d" "u \<in> set (users d)" "email u = addr"
  then show "getCreditBalance_master e d addr = Inr (credits u)"
    using getUserByEmail_master_found [of e d u] by (auto simp: getCreditBalance_master_def)
next
  assume "readable e" "addr \<notin> email ` set (users d)"
  then show "getCreditBalance e d addr = Inr 0"
    by (simp add: getCreditBalance_def getUserByEmail_absent)
next
  assume "readable e" "addr \<notin> email ` set (users d)"
  then show "getCreditBalance_master e d addr = Inr 0"
    by (simp add: getCreditBalance_master_def getUserByEmail_master_absent)
next
  assume "\<not> readable e"
  then show "getCreditBalance e d addr = Inr 0"
    using getUserByEmail_fault [of e d addr] by (auto simp: getCreditBalance_def)
next
  assume "\<not> readable e"
  then show "getCreditBalance_master e d addr = Inr 0"
    using getUserByEmail_master_fault [of e d addr] by (auto simp: getCreditBalance_master_def)
qed

theorem getCreditBalance_never_throws_witness:
  "readable ex_env \<and> schema_ok ex_db \<and> ex_user \<in> set (users ex_db) \<and> email ex_user = ''a@x.com''
   \<and> getCreditBalance ex_env ex_db ''a@x.com'' = Inr 7
   \<and> getCreditBalance_master ex_env ex_db ''a@x.com'' = Inr 7
   \<and> ''ghost@x.com'' \<notin> email ` set (users ex_db)
   \<and> getCreditBalance ex_env ex_db ''ghost@x.com'' = Inr 0
   \<and> \<not> readable ex_outage
   \<and> getCreditBalance ex_outage ex_db ''a@x.com'' = Inr 0
   \<and> getCreditBalance_master ex_outage ex_db ''a@x.com'' = Inr 0"
proof -
  have u: "email ex_user = ''a@x.com''" "credits ex_user = 7" by (simp_all add: ex_user_def)
  have a: "getCreditBalance ex_env ex_db ''a@x.com'' = Inr 7
         \<and> getCreditBalance_master ex_env ex_db ''a@x.com'' = Inr 7"
    using getCreditBalance_never_throws [of ex_env ex_db "''a@x.com''"]
      ex_readable ex_schema_ok ex_user_in u by auto
  have c: "getCreditBalance ex_env ex_db ''ghost@x.com'' = Inr 0"
    using getCreditBalance_never_throws [of ex_env ex_db "''ghost@x.com''"]
      ex_readable ex_ghost_absent by simp
  have d: "getCreditBalance ex_outage ex_db ''a@x.com'' = Inr 0
         \<and> getCreditBalance_master ex_outage ex_db ''a@x.com'' = Inr 0"
    using getCreditBalance_never_throws [of ex_outage ex_db "''a@x.com''"]
      ex_outage_unreadable by simp
  show ?thesis
    using ex_readable ex_schema_ok ex_user_in u(1) ex_ghost_absent ex_outage_unreadable a c d
    by simp
qed

subsection \<open>Credits\<close>

lemma uid_apply_patch [simp]: "uid (apply_patch p u) = uid u"
  by (simp add: apply_patch_def split: option.splits number.splits)

lemma email_apply_patch [simp]: "email (apply_patch p u) = email u"
  by (simp add: apply_patch_def split: option.splits number.splits)










subsection \<open>Trial-start events\<close>































subsection \<open>Events that grant nothing\<close>

lemma groovesell_ignored:
  assumes "grants_nothing e body"
  shows "groovesell_webhook_POST e d (Inr body) =
           (if validated body then success_response None
            else (case (or_null (body_buyer_email body), or_null (body_product_id body)) of
                    (Some addr, Some p) \<Rightarrow> error_response 400 (''Unknown product ID: '' @ p)
                  | _ \<Rightarrow> error_response 400 ''Missing required fields''), d)"
  using assms
  by (auto simp: groovesell_webhook_POST_def grants_nothing_def validated_def
      split: option.splits)

lemma credits_POST_ignored_db:
  assumes "grants_nothing e body" "body_action body \<noteq> Some ''add_credits''"
  shows "snd (credits_POST e d (Inr body)) = d"
  using assms
  by (auto simp: credits_POST_def grants_nothing_def creditsToAdd_def
      split: option.splits sum.splits)

lemma credits_POST_ignored:
  assumes "grants_nothing e body" "truthy (body_buyer_email body)" "truthy (body_event body)"
    "body_action body \<noteq> Some ''get_balance''" "body_action body \<noteq> Some ''add_credits''"
  shows "credits_POST e d (Inr body) = (success_response None, d)"
  using assms
  by (auto simp: credits_POST_def grants_nothing_def creditsToAdd_def or_null_def truthy_def
      split: option.splits sum.splits)

text \<open>
  C8, as the code has it. Take a payment event whose amount is not above 0, or an event whose
  type is neither the start of a trial nor a payment. The groovesell-webhook route leaves the
  database as it is. It acknowledges the event with a success response when the body has a
  buyer email and a product id, neither of them empty, and the lookup of the product id finds
  something: an entry of the table, or a property that every object inherits, as for the
  product id \<open>constructor\<close>. In every other case it answers with status 400. The credits route
  leaves the database as it is unless the body has the action \<open>add_credits\<close>; it acknowledges
  the event with a success response when the body has a buyer email, an event type that is
  not empty, and neither the action \<open>get_balance\<close> nor \<open>add_credits\<close>.
\<close>

theorem ignored_events_change_nothing:
  assumes "grants_nothing e body"
  shows "snd (groovesell_webhook_POST e d (Inr body)) = d
       \<and> (validated body \<longrightarrow>
            fst (groovesell_webhook_POST e d (Inr body)) = success_response None)
       \<and> (\<not> validated body \<longrightarrow>
            status (fst (groovesell_webhook_POST e d (Inr body))) = 400
            \<and> \<not> success (fst (groovesell_webhook_POST e d (Inr body))))
       \<and> (body_action body \<noteq> Some ''add_credits'' \<longrightarrow> snd (credits_POST e d (Inr body)) = d)
       \<and> (truthy (body_buyer_email body) \<and> truthy (body_event body)
            \<and> body_action body \<noteq> Some ''get_balance'' \<and> body_action body \<noteq> Some ''add_credits'' \<longrightarrow>
            fst (credits_POST e d (Inr body)) = success_response None)"
proof (intro conjI impI)
  show "snd (groovesell_webhook_POST e d (Inr body)) = d"
    by (simp add: groovesell_ignored [OF assms])
next
  assume "validated body"
  then show "fst (groovesell_webhook_POST e d (Inr body)) = success_response None"
    by (simp add: groovesell_ignored [OF assms])
next
  assume "\<not> validated body"
  then show "status (fst (groovesell_webhook_POST e d (Inr body))) = 400"
    by (simp add: groovesell_ignored [OF assms] error_response_def split: option.splits)
next
  assume "\<not> validated body"
  then show "\<not> success (fst (groovesell_webhook_POST e d (Inr body)))"
    by (simp add: groovesell_ignored [OF assms] error_response_def split: option.splits)
next
  assume "body_action body \<noteq> Some ''add_credits''"
  then show "snd (credits_POST e d (Inr body)) = d"
    by (rule credits_POST_ignored_db [OF assms])
next
  assume "truthy (body_buyer_email body) \<and> truthy (body_event body)
            \<and> body_action body \<noteq> Some ''get_balance'' \<and> body_action body \<noteq> Some ''add_credits''"
  then show "fst (credits_POST e d (Inr body)) = success_response None"
    by (simp add: credits_POST_ignored [OF assms])
qed

theorem ignored_events_change_nothing_witness:
  "grants_nothing ex_env ex_free_payment \<and> validated ex_free_payment
   \<and> body_action ex_free_payment \<noteq> Some ''add_credits''
   \<and> body_action ex_free_payment \<noteq> Some ''get_balance''
   \<and> truthy (body_buyer_email ex_free_payment) \<and> truthy (body_event ex_free_payment)
   \<and> groovesell_webhook_POST ex_env ex_db (Inr ex_free_payment) = (success_response None, ex_db)
   \<and> credits_POST ex_env ex_db (Inr ex_free_payment) = (success_response None, ex_db)
   \<and> grants_nothing ex_env (ex_free_payment\<lparr>body_product_id := Some ''constructor''\<rparr>)
   \<and> validated (ex_free_payment\<lparr>body_product_id := Some ''constructor''\<rparr>)
   \<and> groovesell_webhook_POST ex_env ex_db
        (Inr (ex_free_payment\<lparr>body_product_id := Some ''constructor''\<rparr>)) = (success_response None, ex_db)
   \<and> grants_nothing ex_env (ex_free_payment\<lparr>body_event := Some ''sales'', body_product_id := None\<rparr>)
   \<and> \<not> validated (ex_free_payment\<lparr>body_event := Some ''sales'', body_product_id := None\<rparr>)
   \<and> status (fst (groovesell_webhook_POST ex_env ex_db
         (Inr (ex_free_payment\<lparr>body_event := Some ''sales'', body_product_id := None\<rparr>)))) = 400"
proof -
  have g: "grants_nothing ex_env ex_free_payment"
    by (simp add: grants_nothing_def ex_free_payment_def amount_gt_0_def ex_env_def)
  have v: "validated ex_free_payment"
    by (simp add: validated_def ex_free_payment_def or_null_def truthy_def PRODUCT_TIER_MAPPING_def
        entries_def)
  have a: "body_action ex_free_payment \<noteq> Some ''add_credits''"
    "body_action ex_free_payment \<noteq> Some ''get_balance''"
    "truthy (body_buyer_email ex_free_payment)" "truthy (body_event ex_free_payment)"
    by (simp_all add: ex_free_payment_def truthy_def)
  have gc: "grants_nothing ex_env (ex_free_payment\<lparr>body_product_id := Some ''constructor''\<rparr>)"
    by (simp add: grants_nothing_def ex_free_payment_def amount_gt_0_def ex_env_def)
  have vc: "validated (ex_free_payment\<lparr>body_product_id := Some ''constructor''\<rparr>)"
    by (simp add: validated_def ex_free_payment_def or_null_def truthy_def PRODUCT_TIER_MAPPING_def
        entries_def Object_prototype_def)
  have g': "grants_nothing ex_env (ex_free_payment\<lparr>body_event := Some ''sales'', body_product_id := None\<rparr>)"
    by (simp add: grants_nothing_def ex_free_payment_def)
  have v': "\<not> validated (ex_free_payment\<lparr>body_event := Some ''sales'', body_product_id := None\<rparr>)"
    by (simp add: validated_def ex_free_payment_def or_null_def truthy_def)
  note t = ignored_events_change_nothing [OF g, of ex_db]
  note tc = ignored_events_change_nothing [OF gc, of ex_db]
  note t' = ignored_events_change_nothing [OF g', of ex_db]
  have r: "groovesell_webhook_POST ex_env ex_db (Inr ex_free_payment) = (success_response None, ex_db)"
    using t v by (simp add: prod_eq_iff)
  have r': "credits_POST ex_env ex_db (Inr ex_free_payment) = (success_response None, ex_db)"
    using t a by (simp add: prod_eq_iff)
  have rc: "groovesell_webhook_POST ex_env ex_db
        (Inr (ex_free_payment\<lparr>body_product_id := Some ''constructor''\<rparr>)) = (success_response None, ex_db)"
    using tc vc by (simp add: prod_eq_iff)
  have r'': "status (fst (groovesell_webhook_POST ex_env ex_db
         (Inr (ex_free_payment\<lparr>body_event := Some ''sales'', body_product_id := None\<rparr>)))) = 400"
    using t' v' by blast
  show ?thesis using g v a gc vc rc g' v' r r' r'' by simp
qed

text \<open>
  The claim C8 as it was made promises a success response and an untouched ledger for every
  payment event of amount 0. The groovesell-webhook route answers such an event with status
  400 when the lookup of its product id finds nothing, and the credits route adds credits for
  such an event when the body also has the action \<open>add_credits\<close>.
\<close>

theorem ignored_events_counterexample:
  "body_event (ex_free_payment\<lparr>body_product_id := Some ''99999''\<rparr>) = Some ''subscription-payment''
   \<and> \<not> amount_gt_0 ex_env (body_amount (ex_free_payment\<lparr>body_product_id := Some ''99999''\<rparr>))
   \<and> fst (groovesell_webhook_POST ex_env ex_db (Inr (ex_free_payment\<lparr>body_product_id := Some ''99999''\<rparr>)))
       = error_response 400 ''Unknown product ID: 99999''
   \<and> body_event (ex_free_payment\<lparr>body_action := Some ''add_credits''\<rparr>) = Some ''subscription-payment''
   \<and> \<not> amount_gt_0 ex_env (body_amount (ex_free_payment\<lparr>body_action := Some ''add_credits''\<rparr>))
   \<and> map credits (users ex_db) = [7]
   \<and> map credits (users (snd (credits_POST ex_env ex_db
         (Inr (ex_free_payment\<lparr>body_action := Some ''add_credits''\<rparr>))))) = [10]"
  by (simp add: run_defs ex_defs)

subsection \<open>The shape of the responses\<close>

lemma groovesell_unparsed:
  "groovesell_webhook_POST e d (Inl m) = ((success_response None)\<lparr>res_error := Some m\<rparr>, d)"
  by (simp add: groovesell_webhook_POST_def)

lemma groovesell_validated:
  assumes "validated body"
  shows "status (fst (groovesell_webhook_POST e d (Inr body))) = 200
       \<and> success (fst (groovesell_webhook_POST e d (Inr body)))"
  using assms
  by (auto simp: groovesell_webhook_POST_def validated_def success_response_def Let_def
      split: option.splits prod.splits sum.splits)

lemma groovesell_not_validated:
  assumes "\<not> validated body"
  shows "status (fst (groovesell_webhook_POST e d (Inr body))) = 400
       \<and> \<not> success (fst (groovesell_webhook_POST e d (Inr body)))
       \<and> snd (groovesell_webhook_POST e d (Inr body)) = d"
  using assms
  by (auto simp: groovesell_webhook_POST_def validated_def error_response_def
      split: option.splits)

lemma addCredits_unreadable:
  assumes "\<not> readable e"
  shows "\<exists>x. addCredits e d addr n st auth = (Inl x, d)"
proof -
  obtain x where x: "getUserByEmail e d addr = Inl x"
    using getUserByEmail_fault [OF assms] by blast
  have c: "\<exists>m c. x = CreditError m c"
    using x send_not_PGRST116 [of e "supabase e" SelectUsers]
    by (auto simp: getUserByEmail_def catch_unknown_def select_users_def single_def
        split: option.splits sum.splits failure.splits list.splits if_splits exn.splits)
  then show ?thesis by (auto simp: addCredits_def x catch_unknown_def)
qed

lemma credits_POST_unreadable:
  assumes "\<not> readable e" "truthy (body_buyer_email body)"
    "body_action body \<noteq> Some ''get_balance''"
    "body_event body = Some ''subscription-trial-start''
     \<or> (body_event body = Some ''subscription-payment'' \<and> amount_gt_0 e (body_amount body))"
  shows "status (fst (credits_POST e d (Inr body))) = 500
       \<and> \<not> success (fst (credits_POST e d (Inr body)))"
proof -
  obtain addr where o: "or_null (body_buyer_email body) = Some addr"
    using assms(2) by (auto simp: or_null_def truthy_def split: option.splits)
  have t: "truthy (body_event body)" using assms(4) by (auto simp: truthy_def)
  obtain n st where c: "creditsToAdd e body = Some (n, st)"
    using assms(4) by (auto simp: creditsToAdd_def)
  show ?thesis
  proof (cases "signUpUser e d addr (body_password body)")
    case (Inl x)
    then show ?thesis using assms(3) by (simp add: credits_POST_def o t c error_response_def)
  next
    case (Inr i)
    obtain x where "addCredits e d addr n st (or_null i) = (Inl x, d)"
      using addCredits_unreadable [OF assms(1)] by blast
    then show ?thesis
      using assms(3) Inr by (simp add: credits_POST_def o t c error_response_def)
  qed
qed

text \<open>
  C9, as the code has it. The groovesell-webhook route answers with a success response
  (status 200, \<open>success\<close> true) every request whose body cannot be parsed, and every request
  whose body has a buyer email and a product id, neither of them empty, for which the lookup
  of the product id finds something: an entry of the table, or a property that every object
  inherits, as for the product id \<open>constructor\<close>. It does so whatever happens while the
  request is handled. Every other body is answered with status 400 and leaves the database as
  it is. The credits route answers an internal error with status 500: a body that cannot be
  parsed, and a trial-start or paid payment event with a buyer email and an action other than
  \<open>get_balance\<close> that comes while the lookup of the user fails.
\<close>

theorem webhook_response_shape:
  "(status (fst (groovesell_webhook_POST e d (Inl m))) = 200
    \<and> success (fst (groovesell_webhook_POST e d (Inl m))))
   \<and> (validated body \<longrightarrow>
        status (fst (groovesell_webhook_POST e d (Inr body))) = 200
        \<and> success (fst (groovesell_webhook_POST e d (Inr body))))
   \<and> (\<not> validated body \<longrightarrow>
        status (fst (groovesell_webhook_POST e d (Inr body))) = 400
        \<and> \<not> success (fst (groovesell_webhook_POST e d (Inr body)))
        \<and> snd (groovesell_webhook_POST e d (Inr body)) = d)
   \<and> (status (fst (credits_POST e d (Inl m))) = 500 \<and> \<not> success (fst (credits_POST e d (Inl m))))
   \<and> (\<not> readable e \<and> truthy (body_buyer_email body) \<and> body_action body \<noteq> Some ''get_balance''
        \<and> (body_event body = Some ''subscription-trial-start''
            \<or> (body_event body = Some ''subscription-payment'' \<and> amount_gt_0 e (body_amount body))) \<longrightarrow>
        status (fst (credits_POST e d (Inr body))) = 500
        \<and> \<not> success (fst (credits_POST e d (Inr body))))"
proof (intro conjI impI)
  show "status (fst (groovesell_webhook_POST e d (Inl m))) = 200"
    and "success (fst (groovesell_webhook_POST e d (Inl m)))"
    by (simp_all add: groovesell_unparsed success_response_def)
  show "status (fst (credits_POST e d (Inl m))) = 500"
    and "\<not> success (fst (credits_POST e d (Inl m)))"
    by (simp_all add: credits_POST_def error_response_def)
next
  assume v: "validated body"
  show "status (fst (groovesell_webhook_POST e d (Inr body))) = 200"
    using groovesell_validated [OF v] by simp
  show "success (fst (groovesell_webhook_POST e d (Inr body)))"
    using groovesell_validated [OF v] by simp
next
  assume v: "\<not> validated body"
  show "status (fst (groovesell_webhook_POST e d (Inr body))) = 400"
    using groovesell_not_validated [OF v] by simp
  show "\<not> success (fst (groovesell_webhook_POST e d (Inr body)))"
    using groovesell_not_validated [OF v] by simp
  show "snd (groovesell_webhook_POST e d (Inr body)) = d"
    using groovesell_not_validated [OF v] by simp
next
  assume a: "\<not> readable e \<and> truthy (body_buyer_email body) \<and> body_action body \<noteq> Some ''get_balance''
        \<and> (body_event body = Some ''subscription-trial-start''
            \<or> (body_event body = Some ''subscription-payment'' \<and> amount_gt_0 e (body_amount body)))"
  show "status (fst (credits_POST e d (Inr body))) = 500"
    using a credits_POST_unreadable [of e body d] by blast
  show "\<not> success (fst (credits_POST e d (Inr body)))"
    using a credits_POST_unreadable [of e body d] by blast
qed

theorem webhook_response_shape_witness:
  "validated ex_trial_start
   \<and> status (fst (groovesell_webhook_POST ex_outage ex_db (Inr ex_trial_start))) = 200
   \<and> success (fst (groovesell_webhook_POST ex_outage ex_db (Inr ex_trial_start)))
   \<and> validated (ex_free_payment\<lparr>body_product_id := Some ''constructor'', body_amount := Str ''9.99''\<rparr>)
   \<and> status (fst (groovesell_webhook_POST ex_env ex_db
        (Inr (ex_free_payment\<lparr>body_product_id := Some ''constructor'',
                               body_amount := Str ''9.99''\<rparr>)))) = 200
   \<and> \<not> validated (ex_trial_start\<lparr>body_buyer_email := None\<rparr>)
   \<and> status (fst (groovesell_webhook_POST ex_env ex_db
                    (Inr (ex_trial_start\<lparr>body_buyer_email := None\<rparr>)))) = 400
   \<and> \<not> readable ex_outage \<and> truthy (body_buyer_email ex_trial_start)
   \<and> body_action ex_trial_start \<noteq> Some ''get_balance''
   \<and> body_event ex_trial_start = Some ''subscription-trial-start''
   \<and> status (fst (credits_POST ex_outage ex_db (Inr ex_trial_start))) = 500"
proof -
  have v: "validated ex_trial_start"
    by (simp add: validated_def ex_trial_start_def or_null_def truthy_def PRODUCT_TIER_MAPPING_def
        entries_def)
  have vc: "validated (ex_free_payment\<lparr>body_product_id := Some ''constructor'',
                                        body_amount := Str ''9.99''\<rparr>)"
    by (simp add: validated_def ex_free_payment_def or_null_def truthy_def PRODUCT_TIER_MAPPING_def
        entries_def Object_prototype_def)
  have v': "\<not> validated (ex_trial_start\<lparr>body_buyer_email := None\<rparr>)"
    by (simp add: validated_def ex_trial_start_def or_null_def truthy_def)
  have a: "truthy (body_buyer_email ex_trial_start)"
    "body_action ex_trial_start \<noteq> Some ''get_balance''"
    "body_event ex_trial_start = Some ''subscription-trial-start''"
    by (simp_all add: ex_trial_start_def truthy_def)
  have r: "status (fst (groovesell_webhook_POST ex_outage ex_db (Inr ex_trial_start))) = 200
      \<and> success (fst (groovesell_webhook_POST ex_outage ex_db (Inr ex_trial_start)))"
    using webhook_response_shape [of ex_outage ex_db _ ex_trial_start] v by blast
  have rc: "status (fst (groovesell_webhook_POST ex_env ex_db
        (Inr (ex_free_payment\<lparr>body_product_id := Some ''constructor'',
                               body_amount := Str ''9.99''\<rparr>)))) = 200"
    using webhook_response_shape [of ex_env ex_db _
        "ex_free_payment\<lparr>body_product_id := Some ''constructor'', body_amount := Str ''9.99''\<rparr>"] vc
    by blast
  have r': "status (fst (groovesell_webhook_POST ex_env ex_db
                    (Inr (ex_trial_start\<lparr>body_buyer_email := None\<rparr>)))) = 400"
    using webhook_response_shape [of ex_env ex_db _ "ex_trial_start\<lparr>body_buyer_email := None\<rparr>"] v'
    by blast
  have r'': "status (fst (credits_POST ex_outage ex_db (Inr ex_trial_start))) = 500"
    using webhook_response_shape [of ex_outage ex_db _ ex_trial_start] ex_outage_unreadable a
    by blast
  show ?thesis using v vc v' a r rc r' r'' ex_outage_unreadable by simp
qed

text \<open>
  The claim C9 as it was made says that no request gets an error status. While the lookup of
  the user fails, the credits route answers a trial-start event with status 500 and the
  message of the error; the groovesell-webhook route answers an event without buyer email
  with status 400, and so it answers an event whose product id the lookup does not find.
\<close>

theorem webhook_response_counterexample:
  "fst (credits_POST ex_outage ex_db (Inr ex_trial_start))
     = error_response 500 ''Unknown error getting user''
   \<and> fst (groovesell_webhook_POST ex_env ex_db (Inr (ex_trial_start\<lparr>body_buyer_email := None\<rparr>)))
     = error_response 400 ''Missing required fields''
   \<and> fst (groovesell_webhook_POST ex_env ex_db (Inr (ex_trial_start\<lparr>body_product_id := Some ''99999''\<rparr>)))
     = error_response 400 ''Unknown product ID: 99999''"
  by (simp add: run_defs ex_defs)

subsection \<open>Negative amounts\<close>




end
